theory Spec2Isabelle
  imports Complex_Main "HOL-Library.Signed_Division" "HOL-Library.Sublist"
begin

section \<open>Dates\<close>

text \<open>
  A JavaScript \<^verbatim>\<open>Date\<close> is modelled by its time value, the integer number of
  milliseconds since 1970-01-01T00:00:00Z (\<^verbatim>\<open>getTime()\<close>). The local time zone of
  the browser is taken to be UTC without daylight saving, so that a local calendar day
  is a block of \<open>msPerDay\<close> milliseconds. ECMAScript clips time values to
  \<open>\<plusminus>8.64e15\<close>; a \<^verbatim>\<open>Date\<close> outside that range is an Invalid Date, on which
  date-fns \<^verbatim>\<open>format\<close> throws a \<^verbatim>\<open>RangeError\<close>. Only the two streak loops can
  walk out of that range from a valid starting date; there the exception is a branch
  of the model. Everywhere else the dates formatted lie between valid dates given by
  the caller, and the formatting functions are taken on valid dates.
\<close>

type_synonym Date = int

datatype jsError = RangeError

definition msPerDay :: int where
  "msPerDay = 1000 * 60 * 60 * 24"

definition maxTimeValue :: int where
  "maxTimeValue = 8640000000000000"

definition validDate :: "Date \<Rightarrow> bool" where
  "validDate t \<longleftrightarrow> - maxTimeValue \<le> t \<and> t \<le> maxTimeValue"

definition subDays :: "Date \<Rightarrow> int \<Rightarrow> Date" where
  "subDays date amount = date - amount * msPerDay"

definition addDays :: "Date \<Rightarrow> int \<Rightarrow> Date" where
  "addDays date amount = date + amount * msPerDay"

text \<open>The day number of a time value (ECMAScript \<^verbatim>\<open>Day(t) = floor(t / msPerDay)\<close>).\<close>

definition dayNumber :: "Date \<Rightarrow> int" where
  "dayNumber t = t div msPerDay"

text \<open>
  Year, month (1..12) and day of month (1..31) of a day number in the proleptic
  Gregorian calendar: what \<^verbatim>\<open>getFullYear()\<close>, \<^verbatim>\<open>getMonth() + 1\<close> and
  \<^verbatim>\<open>getDate()\<close> return.
\<close>

definition civilFromDays :: "int \<Rightarrow> int \<times> int \<times> int" where
  "civilFromDays z0 =
     (let z = z0 + 719468;
          era = z div 146097;
          doe = z mod 146097;
          yoe = (doe - doe div 1460 + doe div 36524 - doe div 146096) div 365;
          doy = doe - (365 * yoe + yoe div 4 - yoe div 100);
          mp = (5 * doy + 2) div 153;
          d = doy - (153 * mp + 2) div 5 + 1;
          m = (if mp < 10 then mp + 3 else mp - 9);
          y = yoe + era * 400 + (if m \<le> 2 then 1 else 0)
      in (y, m, d))"

text \<open>The decimal digits of a non-negative integer.\<close>

function decimal :: "int \<Rightarrow> string" where
  "decimal n =
     (if n < 10 then [''0123456789'' ! nat n]
      else decimal (n div 10) @ [''0123456789'' ! nat (n mod 10)])"
  by pat_completeness auto
termination
  by (relation "measure nat") auto

declare decimal.simps [simp del]

text \<open>date-fns \<^verbatim>\<open>addLeadingZeros(number, targetLength)\<close> on a non-negative number.\<close>

definition addLeadingZeros :: "int \<Rightarrow> nat \<Rightarrow> string" where
  "addLeadingZeros n targetLength =
     (let s = decimal n in replicate (targetLength - length s) (CHR ''0'') @ s)"

text \<open>
  \<^verbatim>\<open>format(date, 'yyyy-MM-dd')\<close>. The token \<^verbatim>\<open>yyyy\<close> prints the year of the era
  (\<^verbatim>\<open>signedYear > 0 ? signedYear : 1 - signedYear\<close>) with at least four digits.
\<close>

definition format_yyyyMMdd :: "Date \<Rightarrow> string" where
  "format_yyyyMMdd date =
     (case civilFromDays (dayNumber date) of (y, m, d) \<Rightarrow>
        addLeadingZeros (if y > 0 then y else 1 - y) 4 @ ''-'' @
        addLeadingZeros m 2 @ ''-'' @ addLeadingZeros d 2)"

text \<open>
  \<^verbatim>\<open>format(date, 'EEEE').toLowerCase()\<close>: the English weekday name. ECMAScript
  \<^verbatim>\<open>WeekDay(t) = (Day(t) + 4) mod 7\<close> with 0 for Sunday.
\<close>

definition weekDay :: "Date \<Rightarrow> nat" where
  "weekDay date = nat ((dayNumber date + 4) mod 7)"

definition format_EEEE_lower :: "Date \<Rightarrow> string" where
  "format_EEEE_lower date =
     [''sunday'', ''monday'', ''tuesday'', ''wednesday'', ''thursday'', ''friday'',
      ''saturday''] ! weekDay date"

text \<open>\<^verbatim>\<open>format(date, 'MMM dd')\<close>, the label of a chart point.\<close>

definition format_MMMdd :: "Date \<Rightarrow> string" where
  "format_MMMdd date =
     (case civilFromDays (dayNumber date) of (y, m, d) \<Rightarrow>
        ([''Jan'', ''Feb'', ''Mar'', ''Apr'', ''May'', ''Jun'', ''Jul'', ''Aug'', ''Sep'',
          ''Oct'', ''Nov'', ''Dec''] ! nat (m - 1)) @ '' '' @ addLeadingZeros d 2)"

section \<open>Data model\<close>

text \<open>
  The fields of \<^verbatim>\<open>Habit\<close> and \<^verbatim>\<open>HabitCompletion\<close> (src/lib/supabase.ts) that the
  scheduling and statistics code reads. \<open>frequency_type\<close> stays a string: the
  \<^verbatim>\<open>switch\<close> statements have a \<^verbatim>\<open>default\<close> branch for values outside the declared
  union. \<open>custom_days\<close> is \<^verbatim>\<open>string[] | null\<close>. \<open>created_at\<close> is the time value
  that \<^verbatim>\<open>parseISO(habit.created_at)\<close> (\<^verbatim>\<open>new Date(habit.created_at)\<close> in App.tsx)
  yields for the stored timestamp.
\<close>

record Habit =
  id_Habit :: string
  frequency_type :: string
  custom_days :: "string list option"
  is_active :: bool
  created_at :: Date

record HabitCompletion =
  habit_id :: string
  completion_date :: string

section \<open>Schedule evaluator\<close>

text \<open>
  JavaScript \<^verbatim>\<open>%\<close> takes the sign of the dividend: it is \<open>smod\<close>. A result
  \<^verbatim>\<open>-0\<close> satisfies \<^verbatim>\<open>=== 0\<close>. \<^verbatim>\<open>Math.floor\<close> of the quotient of two integers is
  \<open>div\<close>.
\<close>

text \<open>
  \<^verbatim>\<open>shouldShowHabitOnDate(habit, date)\<close> of App.tsx, WeeklyCalendar.tsx,
  MonthlyCalendar.tsx, EnhancedAnalyticsDashboard.tsx, MostAbandonedHabits.tsx,
  ExportAnalytics.tsx and AnalyticsChart: the same body in each file.
\<close>

definition shouldShowHabitOnDate :: "Habit \<Rightarrow> Date \<Rightarrow> bool" where
  "shouldShowHabitOnDate habit date =
     (let dayName = format_EEEE_lower date in
      if frequency_type habit = ''daily'' then True
      else if frequency_type habit = ''alternate'' then
        (let createdDate = created_at habit;
             daysSinceCreation = (date - createdDate) div msPerDay
         in daysSinceCreation \<ge> 0 \<and> daysSinceCreation smod 2 = 0)
      else if frequency_type habit = ''custom'' then
        (case custom_days habit of None \<Rightarrow> False | Some days \<Rightarrow> dayName \<in> set days)
      else False)"

text \<open>
  \<^verbatim>\<open>shouldHaveHabitOnDate(date, habit)\<close> of HabitCard.tsx: the \<^verbatim>\<open>alternate\<close> case
  has no test \<^verbatim>\<open>daysSinceCreation >= 0\<close>.
\<close>

definition shouldHaveHabitOnDate :: "Date \<Rightarrow> Habit \<Rightarrow> bool" where
  "shouldHaveHabitOnDate date habit =
     (let dayName = format_EEEE_lower date in
      if frequency_type habit = ''daily'' then True
      else if frequency_type habit = ''alternate'' then
        (let createdDate = created_at habit;
             daysSinceCreation = (date - createdDate) div msPerDay
         in daysSinceCreation smod 2 = 0)
      else if frequency_type habit = ''custom'' then
        (case custom_days habit of None \<Rightarrow> False | Some days \<Rightarrow> dayName \<in> set days)
      else False)"

section \<open>Array helpers\<close>

text \<open>
  \<^verbatim>\<open>Array.prototype.sort(compareFn)\<close> is stable (ECMAScript 2019): for a consistent
  comparator the result is the one of a stable insertion sort. An element \<open>x\<close> goes
  before \<open>y\<close> when \<open>compareFn x y \<le> 0\<close> and \<open>x\<close> came first. A comparator result
  \<^verbatim>\<open>NaN\<close> counts as 0.
\<close>

fun insort_cmp :: "('a \<Rightarrow> 'a \<Rightarrow> rat) \<Rightarrow> 'a \<Rightarrow> 'a list \<Rightarrow> 'a list" where
  "insort_cmp compareFn x [] = [x]"
| "insort_cmp compareFn x (y # ys) =
     (if compareFn x y \<le> 0 then x # y # ys else y # insort_cmp compareFn x ys)"

definition sort_cmp :: "('a \<Rightarrow> 'a \<Rightarrow> rat) \<Rightarrow> 'a list \<Rightarrow> 'a list" where
  "sort_cmp compareFn xs = foldr (insort_cmp compareFn) xs []"

text \<open>
  \<^verbatim>\<open>new Date(s).getTime()\<close> for a date-only string \<^verbatim>\<open>YYYY-MM-DD\<close> (the form of the
  \<^verbatim>\<open>completion_date\<close> column): midnight UTC of that day; \<open>None\<close> stands for
  \<^verbatim>\<open>NaN\<close>, the time value of an Invalid Date.
\<close>

definition digitVal :: "char \<Rightarrow> int option" where
  "digitVal c = map_of (zip ''0123456789'' [0..9]) c"

fun parseDigits :: "int \<Rightarrow> string \<Rightarrow> int option" where
  "parseDigits acc [] = Some acc"
| "parseDigits acc (c # cs) =
     (case digitVal c of None \<Rightarrow> None | Some v \<Rightarrow> parseDigits (10 * acc + v) cs)"

definition daysInMonth :: "int \<Rightarrow> int \<Rightarrow> int" where
  "daysInMonth y m =
     (if m = 2 then (if y mod 4 = 0 \<and> (y mod 100 \<noteq> 0 \<or> y mod 400 = 0) then 29 else 28)
      else if m = 4 \<or> m = 6 \<or> m = 9 \<or> m = 11 then 30 else 31)"

definition daysFromCivil :: "int \<Rightarrow> int \<Rightarrow> int \<Rightarrow> int" where
  "daysFromCivil y0 m d =
     (let y = (if m \<le> 2 then y0 - 1 else y0);
          era = y div 400;
          yoe = y mod 400;
          doy = (153 * (if m > 2 then m - 3 else m + 9) + 2) div 5 + d - 1;
          doe = yoe * 365 + yoe div 4 - yoe div 100 + doy
      in era * 146097 + doe - 719468)"

definition dateValue :: "string \<Rightarrow> int option" where
  "dateValue s =
     (if length s = 10 \<and> s ! 4 = CHR ''-'' \<and> s ! 7 = CHR ''-'' then
        (case (parseDigits 0 (take 4 s), parseDigits 0 (take 2 (drop 5 s)),
               parseDigits 0 (drop 8 s)) of
           (Some y, Some m, Some d) \<Rightarrow>
             (if 1 \<le> m \<and> m \<le> 12 \<and> 1 \<le> d \<and> d \<le> daysInMonth y m
              then Some (daysFromCivil y m d * msPerDay) else None)
         | _ \<Rightarrow> None)
      else None)"

text \<open>
  The comparator
  \<^verbatim>\<open>(a, b) => new Date(b.completion_date).getTime() - new Date(a.completion_date).getTime()\<close>.
\<close>

definition byDateDescending :: "HabitCompletion \<Rightarrow> HabitCompletion \<Rightarrow> rat" where
  "byDateDescending a b =
     (case (dateValue (completion_date b), dateValue (completion_date a)) of
        (Some tb, Some ta) \<Rightarrow> of_int (tb - ta)
      | _ \<Rightarrow> 0)"

section \<open>Streak calculator\<close>

text \<open>
  The \<^verbatim>\<open>while (true)\<close> loop of \<^verbatim>\<open>calculateCurrentStreak\<close>
  (EnhancedAnalyticsDashboard.tsx, lines 351 to 366), with the loop variables
  \<open>checkDate\<close> and \<open>streak\<close> as arguments. \<open>cap\<close> is the constant of the last line
  of the body, \<^verbatim>\<open>if (streak > 365) break\<close>. The first statement of the body,
  \<^verbatim>\<open>format(checkDate, 'yyyy-MM-dd')\<close>, throws on an Invalid Date; that is the
  only exit besides the two \<^verbatim>\<open>break\<close>s.
\<close>

function streakLoop ::
  "int \<Rightarrow> Habit \<Rightarrow> HabitCompletion list \<Rightarrow> Date \<Rightarrow> int \<Rightarrow> jsError + int" where
  "streakLoop cap habit habitCompletions checkDate streak =
     (if \<not> validDate checkDate then Inl RangeError
      else
        let dateStr = format_yyyyMMdd checkDate;
            hasCompletion = list_ex (\<lambda>c. completion_date c = dateStr) habitCompletions;
            shouldHaveHabit = shouldShowHabitOnDate habit checkDate
        in if shouldHaveHabit \<and> \<not> hasCompletion then Inr streak
           else
             let streak' = (if shouldHaveHabit then streak + 1 else streak);
                 checkDate' = subDays checkDate 1
             in if streak' > cap then Inr streak'
                else streakLoop cap habit habitCompletions checkDate' streak')"
  by pat_completeness auto
termination
  by (relation "measure (\<lambda>(cap, habit, cs, checkDate, streak). nat (checkDate + maxTimeValue + 1))")
     (auto simp: validDate_def subDays_def msPerDay_def)

declare streakLoop.simps [simp del]

text \<open>
  \<^verbatim>\<open>calculateCurrentStreak(habit, completions)\<close> of EnhancedAnalyticsDashboard.tsx
  (lines 339 to 369). \<open>today\<close> is the value of \<^verbatim>\<open>new Date()\<close>.
\<close>

definition calculateCurrentStreak ::
  "Habit \<Rightarrow> HabitCompletion list \<Rightarrow> Date \<Rightarrow> jsError + int" where
  "calculateCurrentStreak habit completions today =
     (let habitCompletions =
            sort_cmp byDateDescending (filter (\<lambda>c. habit_id c = id_Habit habit) completions)
      in if length habitCompletions = 0 then Inr 0
         else streakLoop 365 habit habitCompletions today 0)"

text \<open>
  \<^verbatim>\<open>calculateCurrentStreak\<close> of the public habit view (unnamed/part_005, lines 427 to
  457) and of the second dashboard in EnhancedAnalyticsDashboard.tsx (lines 755 to
  785): the same function with \<^verbatim>\<open>if (streak > 100) break\<close>.
\<close>

definition calculateCurrentStreak_100 ::
  "Habit \<Rightarrow> HabitCompletion list \<Rightarrow> Date \<Rightarrow> jsError + int" where
  "calculateCurrentStreak_100 habit completions today =
     (let habitCompletions =
            sort_cmp byDateDescending (filter (\<lambda>c. habit_id c = id_Habit habit) completions)
      in if length habitCompletions = 0 then Inr 0
         else streakLoop 100 habit habitCompletions today 0)"

text \<open>
  The loop of \<^verbatim>\<open>calculateStreak(completions, habit)\<close> of HabitCard.tsx (lines 246 to
  265). A completion on the visited day increments the streak before the schedule is
  looked at; \<^verbatim>\<open>currentDate.setDate(currentDate.getDate() - 1)\<close> steps one day back.
\<close>

function calculateStreak_loop ::
  "HabitCompletion list \<Rightarrow> Habit \<Rightarrow> Date \<Rightarrow> int \<Rightarrow> jsError + int" where
  "calculateStreak_loop completions habit currentDate streak =
     (if \<not> validDate currentDate then Inl RangeError
      else
        let dateStr = format_yyyyMMdd currentDate;
            hasCompletion = list_ex (\<lambda>c. completion_date c = dateStr) completions
        in if \<not> hasCompletion \<and> shouldHaveHabitOnDate currentDate habit then Inr streak
           else
             let streak' = (if hasCompletion then streak + 1 else streak);
                 currentDate' = currentDate - msPerDay
             in if streak' > 100 then Inr streak'
                else calculateStreak_loop completions habit currentDate' streak')"
  by pat_completeness auto
termination
  by (relation "measure (\<lambda>(cs, habit, currentDate, streak). nat (currentDate + maxTimeValue + 1))")
     (auto simp: validDate_def msPerDay_def)

declare calculateStreak_loop.simps [simp del]

definition calculateStreak :: "HabitCompletion list \<Rightarrow> Habit \<Rightarrow> Date \<Rightarrow> jsError + int" where
  "calculateStreak completions habit today =
     (if length completions = 0 then Inr 0
      else calculateStreak_loop completions habit today 0)"

subsection \<open>The streak calculator on a heap of arrays\<close>

text \<open>
  \<^verbatim>\<open>calculateCurrentStreak\<close> is the one function of the schedule, streak and
  aggregation code that writes to an array: \<^verbatim>\<open>sort\<close> sorts in place. Here the arrays
  of completions live in a heap, a function receives references, \<^verbatim>\<open>filter\<close> allocates
  its result and \<^verbatim>\<open>sort\<close> overwrites the array it is called on. This form shows which
  array the sort writes to; the functions above take the contents of the arrays.
\<close>

record Heap =
  arrays :: "nat \<rightharpoonup> HabitCompletion list"
  nextRef :: nat

definition deref :: "Heap \<Rightarrow> nat \<Rightarrow> HabitCompletion list" where
  "deref \<sigma> r = (case arrays \<sigma> r of Some xs \<Rightarrow> xs | None \<Rightarrow> [])"

definition array_filter :: "(HabitCompletion \<Rightarrow> bool) \<Rightarrow> nat \<Rightarrow> Heap \<Rightarrow> nat \<times> Heap" where
  "array_filter p r \<sigma> =
     (nextRef \<sigma>,
      \<sigma>\<lparr>arrays := (arrays \<sigma>)(nextRef \<sigma> \<mapsto> filter p (deref \<sigma> r)), nextRef := nextRef \<sigma> + 1\<rparr>)"

definition array_sort ::
  "(HabitCompletion \<Rightarrow> HabitCompletion \<Rightarrow> rat) \<Rightarrow> nat \<Rightarrow> Heap \<Rightarrow> nat \<times> Heap" where
  "array_sort compareFn r \<sigma> =
     (r, \<sigma>\<lparr>arrays := (arrays \<sigma>)(r \<mapsto> sort_cmp compareFn (deref \<sigma> r))\<rparr>)"

definition array_some :: "(HabitCompletion \<Rightarrow> bool) \<Rightarrow> nat \<Rightarrow> Heap \<Rightarrow> bool" where
  "array_some p r \<sigma> = list_ex p (deref \<sigma> r)"

definition array_length :: "nat \<Rightarrow> Heap \<Rightarrow> nat" where
  "array_length r \<sigma> = length (deref \<sigma> r)"

function streakLoop_heap ::
  "int \<Rightarrow> Habit \<Rightarrow> nat \<Rightarrow> Date \<Rightarrow> int \<Rightarrow> Heap \<Rightarrow> jsError + int" where
  "streakLoop_heap cap habit habitCompletions checkDate streak \<sigma> =
     (if \<not> validDate checkDate then Inl RangeError
      else
        let dateStr = format_yyyyMMdd checkDate;
            hasCompletion = array_some (\<lambda>c. completion_date c = dateStr) habitCompletions \<sigma>;
            shouldHaveHabit = shouldShowHabitOnDate habit checkDate
        in if shouldHaveHabit \<and> \<not> hasCompletion then Inr streak
           else
             let streak' = (if shouldHaveHabit then streak + 1 else streak);
                 checkDate' = subDays checkDate 1
             in if streak' > cap then Inr streak'
                else streakLoop_heap cap habit habitCompletions checkDate' streak' \<sigma>)"
  by pat_completeness auto
termination
  by (relation "measure (\<lambda>(cap, habit, r, checkDate, streak, \<sigma>). nat (checkDate + maxTimeValue + 1))")
     (auto simp: validDate_def subDays_def msPerDay_def)

declare streakLoop_heap.simps [simp del]

definition calculateCurrentStreak_heap ::
  "Habit \<Rightarrow> nat \<Rightarrow> Date \<Rightarrow> Heap \<Rightarrow> (jsError + int) \<times> Heap" where
  "calculateCurrentStreak_heap habit completions today \<sigma> =
     (case array_filter (\<lambda>c. habit_id c = id_Habit habit) completions \<sigma> of
        (filtered, \<sigma>1) \<Rightarrow>
          (case array_sort byDateDescending filtered \<sigma>1 of
             (habitCompletions, \<sigma>2) \<Rightarrow>
               if array_length habitCompletions \<sigma>2 = 0 then (Inr 0, \<sigma>2)
               else (streakLoop_heap 365 habit habitCompletions today 0 \<sigma>2, \<sigma>2)))"

section \<open>Window aggregator\<close>

text \<open>The result object \<^verbatim>\<open>{ completed, planned }\<close>.\<close>

record Stats =
  completed :: int
  planned :: int

text \<open>
  The callback of \<^verbatim>\<open>habits.forEach\<close> in \<^verbatim>\<open>getWeekStats\<close> and
  \<^verbatim>\<open>getCompletionStats\<close>, and the body of the loop of \<^verbatim>\<open>getWeekStatsForHabit\<close>:
  the counters \<^verbatim>\<open>planned\<close> and \<^verbatim>\<open>completed\<close> of the enclosing function are the
  accumulator.
\<close>

definition countHabit :: "HabitCompletion list \<Rightarrow> Date \<Rightarrow> string \<Rightarrow> Stats \<Rightarrow> Habit \<Rightarrow> Stats" where
  "countHabit completions date dateStr acc habit =
     (if shouldShowHabitOnDate habit date then
        (let acc1 = acc\<lparr>planned := planned acc + 1\<rparr>;
             hasCompletion =
               list_ex (\<lambda>c. habit_id c = id_Habit habit \<and> completion_date c = dateStr) completions
         in if hasCompletion then acc1\<lparr>completed := completed acc1 + 1\<rparr> else acc1)
      else acc)"

text \<open>
  \<^verbatim>\<open>getWeekStats(weekStart, weekEnd, habits, completions)\<close> of AnalyticsChart
  (unnamed/part_002, lines 329 to 353); the \<^verbatim>\<open>while (currentDate <= weekEnd)\<close> loop
  with \<open>currentDate\<close> and the counters as arguments.
\<close>

function getWeekStats_loop ::
  "Date \<Rightarrow> Date \<Rightarrow> Habit list \<Rightarrow> HabitCompletion list \<Rightarrow> Stats \<Rightarrow> Stats" where
  "getWeekStats_loop currentDate weekEnd habits completions acc =
     (if currentDate \<le> weekEnd then
        (let dateStr = format_yyyyMMdd currentDate;
             acc' = foldl (countHabit completions currentDate dateStr) acc habits
         in getWeekStats_loop (addDays currentDate 1) weekEnd habits completions acc')
      else acc)"
  by pat_completeness auto
termination
  by (relation "measure (\<lambda>(currentDate, weekEnd, habits, cs, acc). nat (weekEnd - currentDate + 1))")
     (auto simp: addDays_def msPerDay_def)

declare getWeekStats_loop.simps [simp del]

definition getWeekStats :: "Date \<Rightarrow> Date \<Rightarrow> Habit list \<Rightarrow> HabitCompletion list \<Rightarrow> Stats" where
  "getWeekStats weekStart weekEnd habits completions =
     getWeekStats_loop weekStart weekEnd habits completions \<lparr>completed = 0, planned = 0\<rparr>"

text \<open>\<^verbatim>\<open>getWeekStatsForHabit\<close> (unnamed/part_002, lines 355 to 377).\<close>

function getWeekStatsForHabit_loop ::
  "Date \<Rightarrow> Date \<Rightarrow> Habit \<Rightarrow> HabitCompletion list \<Rightarrow> Stats \<Rightarrow> Stats" where
  "getWeekStatsForHabit_loop currentDate weekEnd habit completions acc =
     (if currentDate \<le> weekEnd then
        (let dateStr = format_yyyyMMdd currentDate;
             acc' = countHabit completions currentDate dateStr acc habit
         in getWeekStatsForHabit_loop (addDays currentDate 1) weekEnd habit completions acc')
      else acc)"
  by pat_completeness auto
termination
  by (relation "measure (\<lambda>(currentDate, weekEnd, habit, cs, acc). nat (weekEnd - currentDate + 1))")
     (auto simp: addDays_def msPerDay_def)

declare getWeekStatsForHabit_loop.simps [simp del]

definition getWeekStatsForHabit ::
  "Date \<Rightarrow> Date \<Rightarrow> Habit \<Rightarrow> HabitCompletion list \<Rightarrow> Stats" where
  "getWeekStatsForHabit weekStart weekEnd habit completions =
     getWeekStatsForHabit_loop weekStart weekEnd habit completions \<lparr>completed = 0, planned = 0\<rparr>"

text \<open>
  \<^verbatim>\<open>getCompletionStats(habits, completions, days)\<close> of EnhancedAnalyticsDashboard.tsx
  (lines 314 to 337): \<^verbatim>\<open>for (let i = 0; i < days; i++)\<close> over the dates
  \<^verbatim>\<open>subDays(endDate, i)\<close>, with \<open>endDate\<close> the value of \<^verbatim>\<open>new Date()\<close>. The callers
  pass 7 and 30 for \<open>days\<close>.
\<close>

definition getCompletionStats ::
  "Habit list \<Rightarrow> HabitCompletion list \<Rightarrow> int \<Rightarrow> Date \<Rightarrow> Stats" where
  "getCompletionStats habits completions days endDate =
     foldl (\<lambda>acc i.
              let date = subDays endDate i;
                  dateStr = format_yyyyMMdd date
              in foldl (countHabit completions date dateStr) acc habits)
       \<lparr>completed = 0, planned = 0\<rparr> [0..days - 1]"

text \<open>
  The rates of \<^verbatim>\<open>calculateStats\<close> (EnhancedAnalyticsDashboard.tsx, lines 65 to 82 and
  101 to 103): \<^verbatim>\<open>todayHabits.length > 0 ? (todayCompletions.length / todayHabits.length) * 100 : 0\<close>
  and \<^verbatim>\<open>weekPlanned > 0 ? (weekCompleted / weekPlanned) * 100 : 0\<close>. The quotient of
  the two counters is kept exact.
\<close>

definition todayCompletionRate :: "Habit list \<Rightarrow> HabitCompletion list \<Rightarrow> Date \<Rightarrow> rat" where
  "todayCompletionRate habits completions today =
     (let todayStr = format_yyyyMMdd today;
          activeHabits = filter is_active habits;
          todayHabits = filter (\<lambda>h. shouldShowHabitOnDate h today) activeHabits;
          todayCompletions =
            filter (\<lambda>c. completion_date c = todayStr \<and>
                         list_ex (\<lambda>h. id_Habit h = habit_id c) todayHabits) completions
      in if length todayHabits > 0
         then (of_nat (length todayCompletions) / of_nat (length todayHabits)) * 100 else 0)"

definition weekCompletionRate :: "Habit list \<Rightarrow> HabitCompletion list \<Rightarrow> Date \<Rightarrow> rat" where
  "weekCompletionRate habits completions today =
     (let activeHabits = filter is_active habits;
          st = getCompletionStats activeHabits completions 7 today;
          weekCompleted = completed st;
          weekPlanned = planned st
      in if weekPlanned > 0 then (of_int weekCompleted / of_int weekPlanned) * 100 else 0)"

definition monthCompletionRate :: "Habit list \<Rightarrow> HabitCompletion list \<Rightarrow> Date \<Rightarrow> rat" where
  "monthCompletionRate habits completions today =
     (let activeHabits = filter is_active habits;
          st = getCompletionStats activeHabits completions 30 today;
          monthCompleted = completed st;
          monthPlanned = planned st
      in if monthPlanned > 0 then (of_int monthCompleted / of_int monthPlanned) * 100 else 0)"

section \<open>Adherence ranker\<close>

text \<open>
  The inner \<^verbatim>\<open>while (currentDate <= endDate)\<close> loop of \<^verbatim>\<open>calculateAbandonedHabits\<close>
  (MostAbandonedHabits.tsx, lines 69 to 82) for one habit; the pair is
  \<open>(plannedDays, completedDays)\<close>.
\<close>

function countDays ::
  "Habit \<Rightarrow> HabitCompletion list \<Rightarrow> Date \<Rightarrow> Date \<Rightarrow> int \<times> int \<Rightarrow> int \<times> int" where
  "countDays habit completions currentDate endDate (plannedDays, completedDays) =
     (if currentDate \<le> endDate then
        (if shouldShowHabitOnDate habit currentDate then
           (let plannedDays' = plannedDays + 1;
                dateStr = format_yyyyMMdd currentDate;
                hasCompletion =
                  list_ex (\<lambda>c. habit_id c = id_Habit habit \<and> completion_date c = dateStr) completions;
                completedDays' = (if hasCompletion then completedDays + 1 else completedDays)
            in countDays habit completions (addDays currentDate 1) endDate
                 (plannedDays', completedDays'))
         else countDays habit completions (addDays currentDate 1) endDate
                (plannedDays, completedDays))
      else (plannedDays, completedDays))"
  by pat_completeness auto
termination
  by (relation "measure (\<lambda>(habit, cs, currentDate, endDate, acc). nat (endDate - currentDate + 1))")
     (auto simp: addDays_def msPerDay_def)

declare countDays.simps [simp del]

text \<open>
  The interface \<^verbatim>\<open>AbandonedHabit\<close> (lines 18 to 23). Its field names are also the
  names of the local variables of \<^verbatim>\<open>calculateAbandonedHabits\<close>; below the locals
  \<^verbatim>\<open>plannedDays\<close>, \<^verbatim>\<open>completedDays\<close>, \<^verbatim>\<open>missedDays\<close> and \<^verbatim>\<open>failureRate\<close> are
  written \<open>planned_n\<close>, \<open>completed_n\<close>, \<open>missed_n\<close> and \<open>rate\<close>. The failure rate
  \<^verbatim>\<open>(missedDays / plannedDays) * 100\<close> is a quotient of two day counts and is kept
  exact: for windows of fewer than \<open>2^24\<close> days, rounding to a double neither merges
  two different quotients nor changes their order, which is all the filter and the
  comparator look at.
\<close>

record AbandonedHabit =
  habit :: Habit
  missedDays :: int
  plannedDays :: int
  failureRate :: rat

text \<open>The callback of \<^verbatim>\<open>activeHabits.forEach\<close> (lines 64 to 95); \<^verbatim>\<open>push\<close> appends.\<close>

definition pushHabitStats ::
  "HabitCompletion list \<Rightarrow> Date \<Rightarrow> Date \<Rightarrow> AbandonedHabit list \<Rightarrow> Habit \<Rightarrow> AbandonedHabit list" where
  "pushHabitStats completions startDate endDate habitStats h =
     (case countDays h completions startDate endDate (0, 0) of
        (planned_n, completed_n) \<Rightarrow>
          if planned_n > 0 then
            (let missed_n = planned_n - completed_n;
                 rate = (of_int missed_n / of_int planned_n) * 100
             in habitStats @
                  [\<lparr>habit = h, missedDays = missed_n, plannedDays = planned_n,
                    failureRate = rate\<rparr>])
          else habitStats)"

text \<open>The comparator of the final \<^verbatim>\<open>sort\<close> (lines 100 to 105).\<close>

definition byFailure :: "AbandonedHabit \<Rightarrow> AbandonedHabit \<Rightarrow> rat" where
  "byFailure a b =
     (if failureRate a \<noteq> failureRate b then failureRate b - failureRate a
      else of_int (missedDays b - missedDays a))"

text \<open>
  \<^verbatim>\<open>calculateAbandonedHabits\<close> (MostAbandonedHabits.tsx, lines 38 to 108) after the
  \<^verbatim>\<open>switch (period)\<close> has fixed \<open>startDate\<close> and \<open>endDate\<close>; the result is the
  array passed to \<^verbatim>\<open>setAbandonedHabits\<close>.
\<close>

definition calculateAbandonedHabits ::
  "Habit list \<Rightarrow> HabitCompletion list \<Rightarrow> Date \<Rightarrow> Date \<Rightarrow> AbandonedHabit list" where
  "calculateAbandonedHabits habits completions startDate endDate =
     (let activeHabits = filter is_active habits;
          habitStats = foldl (pushHabitStats completions startDate endDate) [] activeHabits;
          sorted = sort_cmp byFailure (filter (\<lambda>h. failureRate h > 0) habitStats)
      in sorted)"

section \<open>Period bucketizer\<close>

text \<open>
  A \<^verbatim>\<open>ChartDataPoint\<close> is an object with the keys \<^verbatim>\<open>date\<close> and \<^verbatim>\<open>dateLabel\<close> and
  an index signature \<^verbatim>\<open>[habitId: string]: number | string\<close>: a map from property
  names to values.
\<close>

datatype ChartValue = Str string | Num rat

type_synonym ChartDataPoint = "string \<rightharpoonup> ChartValue"

datatype ViewMode = total | per_habit

datatype PeriodView = day | week | month

text \<open>date-fns \<^verbatim>\<open>startOfWeek\<close> and \<^verbatim>\<open>endOfWeek\<close> with \<^verbatim>\<open>{ weekStartsOn: 1 }\<close>.\<close>

definition startOfWeek :: "Date \<Rightarrow> Date" where
  "startOfWeek date =
     (let d = int (weekDay date);
          diff = (if d < 1 then 7 else 0) + d - 1
      in (dayNumber date - diff) * msPerDay)"

definition endOfWeek :: "Date \<Rightarrow> Date" where
  "endOfWeek date =
     (let d = int (weekDay date);
          diff = (if d < 1 then - 7 else 0) + 6 - (d - 1)
      in (dayNumber date + diff) * msPerDay + (msPerDay - 1))"

text \<open>
  The callback of \<^verbatim>\<open>activeHabits.forEach\<close> in the per-habit day view
  (unnamed/part_002, lines 61 to 68).
\<close>

definition setHabitPoint ::
  "HabitCompletion list \<Rightarrow> string set \<Rightarrow> Date \<Rightarrow> string \<Rightarrow> ChartDataPoint \<Rightarrow> Habit \<Rightarrow> ChartDataPoint" where
  "setHabitPoint completions selectedHabits date dateStr dataPoint h =
     (if id_Habit h \<in> selectedHabits \<and> shouldShowHabitOnDate h date then
        (let hasCompletion =
               list_ex (\<lambda>c. habit_id c = id_Habit h \<and> completion_date c = dateStr) completions
         in dataPoint(id_Habit h \<mapsto> Num (if hasCompletion then 100 else 0)))
      else dataPoint)"

text \<open>One iteration of the day loop (lines 43 to 71): the point pushed to \<^verbatim>\<open>data\<close>.\<close>

definition dayPoint ::
  "Habit list \<Rightarrow> HabitCompletion list \<Rightarrow> ViewMode \<Rightarrow> string set \<Rightarrow> Date \<Rightarrow> ChartDataPoint" where
  "dayPoint activeHabits completions viewMode selectedHabits date =
     (let dateStr = format_yyyyMMdd date;
          dateLabel = format_MMMdd date;
          dataPoint = [''date'' \<mapsto> Str dateStr, ''dateLabel'' \<mapsto> Str dateLabel]
      in if viewMode = total then
           (let dayHabits = filter (\<lambda>h. shouldShowHabitOnDate h date) activeHabits;
                dayCompletions =
                  filter (\<lambda>c. completion_date c = dateStr \<and>
                               list_ex (\<lambda>h. id_Habit h = habit_id c) dayHabits) completions
            in dataPoint(''total'' \<mapsto>
                 Num (if length dayHabits > 0
                      then (of_nat (length dayCompletions) / of_nat (length dayHabits)) * 100
                      else 0)))
         else foldl (setHabitPoint completions selectedHabits date dateStr) dataPoint activeHabits)"

text \<open>One iteration of the week loop (lines 77 to 100).\<close>

definition weekPoint ::
  "Habit list \<Rightarrow> HabitCompletion list \<Rightarrow> ViewMode \<Rightarrow> string set \<Rightarrow> Date \<Rightarrow> ChartDataPoint" where
  "weekPoint activeHabits completions viewMode selectedHabits weekEnd =
     (let weekStart = startOfWeek weekEnd;
          weekEndActual = endOfWeek weekEnd;
          dateLabel = format_MMMdd weekStart @ '' - '' @ format_MMMdd weekEndActual;
          dataPoint = [''date'' \<mapsto> Str (format_yyyyMMdd weekStart), ''dateLabel'' \<mapsto> Str dateLabel]
      in if viewMode = total then
           (let weekStats = getWeekStats weekStart weekEndActual activeHabits completions
            in dataPoint(''total'' \<mapsto>
                 Num (if planned weekStats > 0
                      then (of_int (completed weekStats) / of_int (planned weekStats)) * 100
                      else 0)))
         else foldl (\<lambda>dp h.
                if id_Habit h \<in> selectedHabits then
                  (let habitStats = getWeekStatsForHabit weekStart weekEndActual h completions
                   in dp(id_Habit h \<mapsto>
                        Num (if planned habitStats > 0
                             then (of_int (completed habitStats) / of_int (planned habitStats)) * 100
                             else 0)))
                else dp) dataPoint activeHabits)"

text \<open>
  \<^verbatim>\<open>chartData\<close> of \<^verbatim>\<open>AnalyticsChart\<close> (unnamed/part_002, lines 35 to 106);
  \<open>endDate\<close> is the value of \<^verbatim>\<open>new Date()\<close>. \<^verbatim>\<open>Math.ceil(dateRange / 7)\<close> is
  \<open>- ((- dateRange) div 7)\<close>.
\<close>

definition chartData ::
  "Habit list \<Rightarrow> HabitCompletion list \<Rightarrow> ViewMode \<Rightarrow> PeriodView \<Rightarrow> string set \<Rightarrow> int \<Rightarrow> Date
     \<Rightarrow> ChartDataPoint list" where
  "chartData habits completions viewMode periodView selectedHabits dateRange endDate =
     (let activeHabits = filter is_active habits in
      if periodView = day then
        map (\<lambda>i. dayPoint activeHabits completions viewMode selectedHabits
                    (subDays endDate (dateRange - i))) [0..dateRange]
      else if periodView = week then
        (let weeksToShow = - ((- dateRange) div 7)
         in rev (map (\<lambda>i. weekPoint activeHabits completions viewMode selectedHabits
                             (subDays endDate (i * 7))) [0..weeksToShow - 1]))
      else [])"

section \<open>Auxiliary notions and sample data\<close>

text \<open>The invariant of the two counters of a window aggregate.\<close>

definition countsOk :: "Stats \<Rightarrow> bool" where
  "countsOk st \<longleftrightarrow> 0 \<le> completed st \<and> completed st \<le> planned st"

text \<open>
  The entry that \<^verbatim>\<open>calculateAbandonedHabits\<close> pushes for a habit with at least one
  planned day.
\<close>

definition statsEntry :: "HabitCompletion list \<Rightarrow> Date \<Rightarrow> Date \<Rightarrow> Habit \<Rightarrow> AbandonedHabit" where
  "statsEntry cs s e h =
     (case countDays h cs s e (0, 0) of (p, c) \<Rightarrow>
        \<lparr>habit = h, missedDays = p - c, plannedDays = p,
         failureRate = (of_int (p - c) / of_int p) * 100\<rparr>)"

text \<open>
  The schedule rule of the specification for \<^verbatim>\<open>alternate\<close> habits, in its own
  words: the number of whole days between the calendar date of \<open>created_at\<close> and the
  calendar date of \<open>date\<close> is non-negative and even.
\<close>

definition isDue_Alternate_spec :: "Habit \<Rightarrow> Date \<Rightarrow> bool" where
  "isDue_Alternate_spec h date \<longleftrightarrow>
     0 \<le> dayNumber date - dayNumber (created_at h) \<and>
     even (dayNumber date - dayNumber (created_at h))"


text \<open>
  Sample data. \<open>1705329000000\<close> is Monday 2024-01-15T14:30:00Z and \<open>1705276800000\<close>
  the midnight that starts that day.
\<close>

definition ex_alternate :: Habit where
  "ex_alternate = \<lparr>id_Habit = ''h-alt'', frequency_type = ''alternate'', custom_days = None,
     is_active = True, created_at = 1705329000000\<rparr>"

definition ex_monday :: Habit where
  "ex_monday = \<lparr>id_Habit = ''h-mon'', frequency_type = ''custom'',
     custom_days = Some [''monday''], is_active = True, created_at = 1705329000000\<rparr>"

definition ex_monday2 :: Habit where
  "ex_monday2 = \<lparr>id_Habit = ''h-mon2'', frequency_type = ''custom'',
     custom_days = Some [''monday''], is_active = True, created_at = 1705329000000\<rparr>"

definition ex_daily :: Habit where
  "ex_daily = \<lparr>id_Habit = ''h-day'', frequency_type = ''daily'', custom_days = None,
     is_active = True, created_at = 1705329000000\<rparr>"

definition ex_nodays :: Habit where
  "ex_nodays = \<lparr>id_Habit = ''h-none'', frequency_type = ''custom'', custom_days = Some [],
     is_active = True, created_at = 1705329000000\<rparr>"

definition ex_weekly :: Habit where
  "ex_weekly = \<lparr>id_Habit = ''h-week'', frequency_type = ''weekly'', custom_days = None,
     is_active = True, created_at = 1705329000000\<rparr>"


definition ex_habits :: "Habit list" where
  "ex_habits = [ex_monday, ex_alternate, ex_monday2, ex_daily, ex_nodays]"

definition ex_completions :: "HabitCompletion list" where
  "ex_completions =
     [\<lparr>habit_id = ''h-alt'', completion_date = ''2024-01-15''\<rparr>,
      \<lparr>habit_id = ''h-day'', completion_date = ''2024-01-16''\<rparr>]"

section \<open>Lemmas on the window aggregates and on sorting\<close>

lemma countHabit_ok: "countsOk acc \<Longrightarrow> countsOk (countHabit cs d ds acc h)"
  by (simp add: countHabit_def countsOk_def Let_def)

lemma foldl_countHabit_ok: "countsOk acc \<Longrightarrow> countsOk (foldl (countHabit cs d ds) acc hs)"
  by (induction hs arbitrary: acc) (simp_all add: countHabit_ok)

lemma getWeekStats_loop_ok:
  "countsOk acc \<Longrightarrow> countsOk (getWeekStats_loop d e hs cs acc)"
proof (induction d e hs cs acc rule: getWeekStats_loop.induct)
  case (1 d e hs cs acc)
  show ?case
  proof (cases "d \<le> e")
    case True
    have "countsOk (getWeekStats_loop (addDays d 1) e hs cs
            (foldl (countHabit cs d (format_yyyyMMdd d)) acc hs))"
      by (rule "1.IH"[OF True refl refl]) (simp add: foldl_countHabit_ok "1.prems")
    then show ?thesis
      using True by (subst getWeekStats_loop.simps) (simp add: Let_def)
  next
    case False
    then show ?thesis
      using "1.prems" by (subst getWeekStats_loop.simps) simp
  qed
qed

lemma getWeekStatsForHabit_loop_ok:
  "countsOk acc \<Longrightarrow> countsOk (getWeekStatsForHabit_loop d e h cs acc)"
proof (induction d e h cs acc rule: getWeekStatsForHabit_loop.induct)
  case (1 d e h cs acc)
  show ?case
  proof (cases "d \<le> e")
    case True
    have "countsOk (getWeekStatsForHabit_loop (addDays d 1) e h cs
            (countHabit cs d (format_yyyyMMdd d) acc h))"
      by (rule "1.IH"[OF True refl refl]) (simp add: countHabit_ok "1.prems")
    then show ?thesis
      using True by (subst getWeekStatsForHabit_loop.simps) (simp add: Let_def)
  next
    case False
    then show ?thesis
      using "1.prems" by (subst getWeekStatsForHabit_loop.simps) simp
  qed
qed

lemma foldl_invariant:
  "P a \<Longrightarrow> (\<And>acc x. P acc \<Longrightarrow> P (f acc x)) \<Longrightarrow> P (foldl f a xs)"
  by (induction xs arbitrary: a) simp_all

lemma countsOk_zero: "countsOk \<lparr>completed = 0, planned = 0\<rparr>"
  by (simp add: countsOk_def)

lemma getCompletionStats_ok: "countsOk (getCompletionStats hs cs days endDate)"
  unfolding getCompletionStats_def
  by (rule foldl_invariant) (simp_all add: countsOk_zero Let_def foldl_countHabit_ok)

lemma countDays_ok:
  "0 \<le> c \<Longrightarrow> c \<le> p \<Longrightarrow> countDays h cs d e (p, c) = (p', c') \<Longrightarrow> 0 \<le> c' \<and> c' \<le> p'"
proof (induction h cs d e "(p, c)" arbitrary: p c rule: countDays.induct)
  case (1 h cs d e p c)
  show ?case
  proof (cases "d \<le> e")
    case False
    then show ?thesis
      using "1.prems" by (subst (asm) countDays.simps) simp
  next
    case le: True
    show ?thesis
    proof (cases "shouldShowHabitOnDate h d")
      case True
      let ?c = "if list_ex (\<lambda>x. habit_id x = id_Habit h \<and> completion_date x = format_yyyyMMdd d) cs
                then c + 1 else c"
      have eq: "countDays h cs (addDays d 1) e (p + 1, ?c) = (p', c')"
        using "1.prems"(3) le True by (subst (asm) countDays.simps) (simp add: Let_def)
      show ?thesis
        by (rule "1.hyps"(1)[OF le True refl refl refl refl _ _ eq]) (use "1.prems" in auto)
    next
      case False
      have eq: "countDays h cs (addDays d 1) e (p, c) = (p', c')"
        using "1.prems"(3) le False by (subst (asm) countDays.simps) simp
      show ?thesis
        by (rule "1.hyps"(2)[OF le False _ _ eq]) (use "1.prems" in auto)
    qed
  qed
qed


lemma set_insort_cmp: "set (insort_cmp f x xs) = insert x (set xs)"
  by (induction xs) auto

lemma set_sort_cmp: "set (sort_cmp f xs) = set xs"
  by (induction xs) (simp_all add: sort_cmp_def set_insort_cmp)

lemma length_insort_cmp: "length (insort_cmp f x xs) = Suc (length xs)"
  by (induction xs) auto

lemma length_sort_cmp: "length (sort_cmp f xs) = length xs"
  by (induction xs) (simp_all add: sort_cmp_def length_insort_cmp)

lemma sorted_insort_cmp:
  assumes total: "\<And>a b. \<not> f a b \<le> 0 \<Longrightarrow> f b a \<le> 0"
    and trans: "\<And>a b c. f a b \<le> 0 \<Longrightarrow> f b c \<le> 0 \<Longrightarrow> f a c \<le> 0"
  shows "sorted_wrt (\<lambda>a b. f a b \<le> 0) xs \<Longrightarrow> sorted_wrt (\<lambda>a b. f a b \<le> 0) (insort_cmp f x xs)"
proof (induction xs)
  case Nil
  then show ?case by simp
next
  case (Cons y ys)
  show ?case
  proof (cases "f x y \<le> 0")
    case True
    then have "\<forall>z\<in>set ys. f x z \<le> 0"
      using Cons.prems trans by auto
    then show ?thesis
      using True Cons.prems by simp
  next
    case False
    then have "f y x \<le> 0"
      by (rule total)
    then show ?thesis
      using False Cons by (auto simp: set_insort_cmp)
  qed
qed

lemma sorted_sort_cmp:
  assumes "\<And>a b. \<not> f a b \<le> 0 \<Longrightarrow> f b a \<le> 0"
    and "\<And>a b c. f a b \<le> 0 \<Longrightarrow> f b c \<le> 0 \<Longrightarrow> f a c \<le> 0"
  shows "sorted_wrt (\<lambda>a b. f a b \<le> 0) (sort_cmp f xs)"
proof (induction xs)
  case Nil
  then show ?case by (simp add: sort_cmp_def)
next
  case (Cons x xs)
  then show ?case
    using sorted_insort_cmp[of f, OF assms] by (simp add: sort_cmp_def)
qed

lemma filter_insort_cmp:
  assumes "\<And>y. P x \<Longrightarrow> P y \<Longrightarrow> f x y \<le> 0"
  shows "filter P (insort_cmp f x xs) = (if P x then x # filter P xs else filter P xs)"
  using assms by (induction xs) auto

lemma filter_sort_cmp:
  assumes "\<And>x y. P x \<Longrightarrow> P y \<Longrightarrow> f x y \<le> 0"
  shows "filter P (sort_cmp f xs) = filter P xs"
proof (induction xs)
  case Nil
  then show ?case by (simp add: sort_cmp_def)
next
  case (Cons x xs)
  have "filter P (insort_cmp f x (sort_cmp f xs)) =
          (if P x then x # filter P (sort_cmp f xs) else filter P (sort_cmp f xs))"
    by (rule filter_insort_cmp) (rule assms)
  then show ?case
    using Cons by (simp add: sort_cmp_def)
qed

lemma byFailure_le:
  "byFailure a b \<le> 0 \<longleftrightarrow>
     failureRate a > failureRate b \<or> (failureRate a = failureRate b \<and> missedDays a \<ge> missedDays b)"
  by (auto simp: byFailure_def)

lemma byFailure_total: "\<not> byFailure a b \<le> 0 \<Longrightarrow> byFailure b a \<le> 0"
  by (auto simp: byFailure_le)

lemma byFailure_trans: "byFailure a b \<le> 0 \<Longrightarrow> byFailure b c \<le> 0 \<Longrightarrow> byFailure a c \<le> 0"
  by (auto simp: byFailure_le)

lemma pushHabitStats_eq:
  "pushHabitStats cs s e acc h =
     acc @ (if fst (countDays h cs s e (0, 0)) > 0 then [statsEntry cs s e h] else [])"
  by (simp add: pushHabitStats_def statsEntry_def Let_def split: prod.splits)

lemma foldl_pushHabitStats:
  "foldl (pushHabitStats cs s e) acc hs =
     acc @ map (statsEntry cs s e) (filter (\<lambda>h. fst (countDays h cs s e (0, 0)) > 0) hs)"
  by (induction hs arbitrary: acc) (simp_all add: pushHabitStats_eq)

lemma calculateAbandonedHabits_eq:
  "calculateAbandonedHabits habits cs s e =
     sort_cmp byFailure
       (filter (\<lambda>a. failureRate a > 0)
          (map (statsEntry cs s e)
             (filter (\<lambda>h. fst (countDays h cs s e (0, 0)) > 0) (filter is_active habits))))"
  by (simp add: calculateAbandonedHabits_def foldl_pushHabitStats)

lemma habit_statsEntry [simp]: "habit (statsEntry cs s e h) = h"
  by (simp add: statsEntry_def split: prod.splits)

lemma countDays_zero_ok:
  "0 \<le> snd (countDays h cs s e (0, 0)) \<and> snd (countDays h cs s e (0, 0)) \<le> fst (countDays h cs s e (0, 0))"
  using countDays_ok[of 0 0 h cs s e "fst (countDays h cs s e (0, 0))" "snd (countDays h cs s e (0, 0))"]
  by simp

lemma statsEntry_fields:
  "plannedDays (statsEntry cs s e h) = fst (countDays h cs s e (0, 0))"
  "missedDays (statsEntry cs s e h) = fst (countDays h cs s e (0, 0)) - snd (countDays h cs s e (0, 0))"
  "failureRate (statsEntry cs s e h) =
     (of_int (fst (countDays h cs s e (0, 0)) - snd (countDays h cs s e (0, 0))) /
      of_int (fst (countDays h cs s e (0, 0)))) * 100"
  by (simp_all add: statsEntry_def split: prod.splits)

lemma calculateAbandonedHabits_entry:
  assumes "a \<in> set (calculateAbandonedHabits habits cs s e)"
  shows "\<exists>h \<in> set habits. is_active h \<and> a = statsEntry cs s e h \<and>
           fst (countDays h cs s e (0, 0)) > 0 \<and> failureRate a > 0"
  using assms by (auto simp: calculateAbandonedHabits_eq set_sort_cmp)

section \<open>Adherence ranker: filtering and order\<close>

text \<open>
  Claim C4. For every habit list, completion list and window, every entry of the
  result of \<^verbatim>\<open>calculateAbandonedHabits\<close> belongs to an active habit of the input and
  carries that habit's planned count, missed count and failure rate; no entry has
  planned = 0 or failureRate = 0. The result is sorted descending by failure rate,
  ties broken by descending missed count, and entries that tie on both keep the order
  of the input habit list (for any rate \<open>r\<close> and missed count \<open>m\<close>, the habits of the
  entries with these keys form a subsequence of the input).
\<close>

theorem rankByFailure_filtered_sorted_stable:
  "(\<forall>a \<in> set (calculateAbandonedHabits habits cs s e).
      habit a \<in> set habits \<and> is_active (habit a) \<and>
      plannedDays a = fst (countDays (habit a) cs s e (0, 0)) \<and>
      missedDays a = plannedDays a - snd (countDays (habit a) cs s e (0, 0)) \<and>
      failureRate a = (of_int (missedDays a) / of_int (plannedDays a)) * 100 \<and>
      plannedDays a \<noteq> 0 \<and> failureRate a \<noteq> 0) \<and>
   sorted_wrt (\<lambda>a b. failureRate a > failureRate b \<or>
                      (failureRate a = failureRate b \<and> missedDays a \<ge> missedDays b))
     (calculateAbandonedHabits habits cs s e) \<and>
   subseq (map habit (filter (\<lambda>a. failureRate a = r \<and> missedDays a = m)
                        (calculateAbandonedHabits habits cs s e))) habits"
proof (intro conjI ballI)
  fix a
  assume "a \<in> set (calculateAbandonedHabits habits cs s e)"
  then obtain h where h: "h \<in> set habits" "is_active h" "a = statsEntry cs s e h"
    "fst (countDays h cs s e (0, 0)) > 0" "failureRate a > 0"
    using calculateAbandonedHabits_entry by blast
  show "habit a \<in> set habits" "is_active (habit a)"
    using h by simp_all
  show "plannedDays a = fst (countDays (habit a) cs s e (0, 0))"
    using h by (simp add: statsEntry_fields)
  show "missedDays a = plannedDays a - snd (countDays (habit a) cs s e (0, 0))"
    using h by (simp add: statsEntry_fields)
  show "failureRate a = (of_int (missedDays a) / of_int (plannedDays a)) * 100"
    using h by (simp add: statsEntry_fields)
  show "plannedDays a \<noteq> 0"
    using h by (simp add: statsEntry_fields)
  show "failureRate a \<noteq> 0"
    using h by simp
next
  have "sorted_wrt (\<lambda>a b. byFailure a b \<le> 0) (calculateAbandonedHabits habits cs s e)"
    unfolding calculateAbandonedHabits_eq
    by (rule sorted_sort_cmp) (erule byFailure_total, erule (1) byFailure_trans)
  then show "sorted_wrt (\<lambda>a b. failureRate a > failureRate b \<or>
                      (failureRate a = failureRate b \<and> missedDays a \<ge> missedDays b))
     (calculateAbandonedHabits habits cs s e)"
    by (simp add: byFailure_le)
next
  let ?tie = "\<lambda>a. failureRate a = r \<and> missedDays a = m"
  let ?due = "\<lambda>h. fst (countDays h cs s e (0, 0)) > 0"
  let ?ys = "map (statsEntry cs s e) (filter ?due (filter is_active habits))"
  let ?xs = "filter (\<lambda>a. failureRate a > 0) ?ys"
  have tie: "filter ?tie (calculateAbandonedHabits habits cs s e) = filter ?tie ?xs"
    unfolding calculateAbandonedHabits_eq
    by (rule filter_sort_cmp) (simp add: byFailure_def)
  have "subseq (filter ?tie ?xs) ?xs"
    by (rule subseq_filter_left)
  moreover have "subseq ?xs ?ys"
    by (rule subseq_filter_left)
  ultimately have "subseq (filter ?tie ?xs) ?ys"
    by (rule subseq_order.trans)
  then have "subseq (map habit (filter ?tie ?xs)) (map habit ?ys)"
    by (rule subseq_map)
  moreover have "map habit ?ys = filter ?due (filter is_active habits)"
    by (simp add: comp_def)
  ultimately have 1: "subseq (map habit (filter ?tie ?xs)) (filter ?due (filter is_active habits))"
    by simp
  have "subseq (filter ?due (filter is_active habits)) (filter is_active habits)"
    by (rule subseq_filter_left)
  moreover have "subseq (filter is_active habits) habits"
    by (rule subseq_filter_left)
  ultimately have 2: "subseq (filter ?due (filter is_active habits)) habits"
    by (rule subseq_order.trans)
  show "subseq (map habit (filter ?tie (calculateAbandonedHabits habits cs s e))) habits"
    unfolding tie by (rule subseq_order.trans[OF 1 2])
qed

text \<open>
  The theorem at the week from Monday 2024-01-15 to Sunday 2024-01-21: the daily habit,
  completed once, comes last; the habit that is never due is dropped; the two Monday
  habits tie on both keys and keep their input order.
\<close>

theorem rankByFailure_filtered_sorted_stable_witness:
  "map (\<lambda>a. (id_Habit (habit a), failureRate a, missedDays a))
     (calculateAbandonedHabits ex_habits ex_completions 1705276800000 1705881599999) =
     [(''h-alt'', 100, 3), (''h-mon'', 100, 1), (''h-mon2'', 100, 1), (''h-day'', 600 / 7, 6)] \<and>
   sorted_wrt (\<lambda>a b. failureRate a > failureRate b \<or>
                      (failureRate a = failureRate b \<and> missedDays a \<ge> missedDays b))
     (calculateAbandonedHabits ex_habits ex_completions 1705276800000 1705881599999) \<and>
   subseq (map habit (filter (\<lambda>a. failureRate a = 100 \<and> missedDays a = 1)
                        (calculateAbandonedHabits ex_habits ex_completions 1705276800000 1705881599999)))
     ex_habits"
proof -
  have "map (\<lambda>a. (id_Habit (habit a), failureRate a, missedDays a))
     (calculateAbandonedHabits ex_habits ex_completions 1705276800000 1705881599999) =
     [(''h-alt'', 100, 3), (''h-mon'', 100, 1), (''h-mon2'', 100, 1), (''h-day'', 600 / 7, 6)]"
    by code_simp
  then show ?thesis
    using rankByFailure_filtered_sorted_stable
      [of ex_habits ex_completions 1705276800000 1705881599999 100 1]
    by blast
qed

section \<open>Window aggregator: bounds and degenerate windows\<close>

lemma rate_bounds:
  fixes c p :: int
  assumes "0 \<le> c" "c \<le> p" "0 < p"
  shows "0 \<le> (of_int c / of_int p) * (100::rat) \<and> (of_int c / of_int p) * (100::rat) \<le> 100"
proof -
  have "(of_int c :: rat) \<le> of_int p" "(0::rat) \<le> of_int c" "(0::rat) < of_int p"
    using assms by simp_all
  then show ?thesis
    by (simp add: divide_le_eq)
qed

lemma getWeekStats_ok: "countsOk (getWeekStats ws we hs cs)"
  by (simp add: getWeekStats_def getWeekStats_loop_ok countsOk_zero)

lemma getWeekStatsForHabit_ok: "countsOk (getWeekStatsForHabit ws we h cs)"
  by (simp add: getWeekStatsForHabit_def getWeekStatsForHabit_loop_ok countsOk_zero)

lemma rate_or_zero_bounds:
  fixes c p :: int
  assumes "0 \<le> c" "c \<le> p"
  shows "0 \<le> (if p > 0 then (of_int c / of_int p) * (100::rat) else 0) \<and>
         (if p > 0 then (of_int c / of_int p) * (100::rat) else 0) \<le> 100"
proof (cases "p > 0")
  case True
  then show ?thesis
    using rate_bounds[OF assms True] by simp
next
  case False
  then show ?thesis by simp
qed

lemma weekCompletionRate_bounds:
  "0 \<le> weekCompletionRate hs cs today \<and> weekCompletionRate hs cs today \<le> 100"
  unfolding weekCompletionRate_def Let_def
  by (rule rate_or_zero_bounds)
     (use getCompletionStats_ok[of "filter is_active hs" cs 7 today] in \<open>simp_all add: countsOk_def\<close>)

lemma monthCompletionRate_bounds:
  "0 \<le> monthCompletionRate hs cs today \<and> monthCompletionRate hs cs today \<le> 100"
  unfolding monthCompletionRate_def Let_def
  by (rule rate_or_zero_bounds)
     (use getCompletionStats_ok[of "filter is_active hs" cs 30 today] in \<open>simp_all add: countsOk_def\<close>)

lemma weekPoint_total_bounds:
  "\<exists>x. weekPoint hs cs total sel d ''total'' = Some (Num x) \<and> 0 \<le> x \<and> x \<le> 100"
proof -
  let ?st = "getWeekStats (startOfWeek d) (endOfWeek d) hs cs"
  have "0 \<le> (if planned ?st > 0 then (of_int (completed ?st) / of_int (planned ?st)) * (100::rat) else 0) \<and>
        (if planned ?st > 0 then (of_int (completed ?st) / of_int (planned ?st)) * (100::rat) else 0) \<le> 100"
    by (rule rate_or_zero_bounds) (use getWeekStats_ok[of "startOfWeek d" "endOfWeek d" hs cs] in \<open>simp_all add: countsOk_def\<close>)
  then show ?thesis
    by (simp add: weekPoint_def Let_def)
qed

lemma abandoned_entry_bounds:
  assumes "a \<in> set (calculateAbandonedHabits hs cs s e)"
  shows "0 \<le> missedDays a \<and> missedDays a \<le> plannedDays a \<and>
         0 \<le> failureRate a \<and> failureRate a \<le> 100"
proof -
  obtain h where h: "a = statsEntry cs s e h" "fst (countDays h cs s e (0, 0)) > 0"
    using calculateAbandonedHabits_entry[OF assms] by blast
  let ?p = "fst (countDays h cs s e (0, 0))" and ?c = "snd (countDays h cs s e (0, 0))"
  have c: "0 \<le> ?c" "?c \<le> ?p"
    using countDays_zero_ok[of h cs s e] by simp_all
  have "0 \<le> (of_int (?p - ?c) / of_int ?p) * (100::rat) \<and>
        (of_int (?p - ?c) / of_int ?p) * (100::rat) \<le> 100"
    by (rule rate_bounds) (use c h in simp_all)
  then show ?thesis
    using c h by (simp add: statsEntry_fields)
qed

text \<open>
  Claim C10. For every habit list, completion list and window, the counters returned
  by \<^verbatim>\<open>getWeekStats\<close>, \<^verbatim>\<open>getWeekStatsForHabit\<close>, \<^verbatim>\<open>getCompletionStats\<close> and by the
  per-habit loop of \<^verbatim>\<open>calculateAbandonedHabits\<close> satisfy 0 \<le> completed \<le> planned;
  hence every entry of the ranking has 0 \<le> missed \<le> planned and a failure rate
  between 0 and 100, and the week and month completion rates of the dashboard and the
  weekly rate of the chart lie between 0 and 100.
\<close>

theorem window_counts_bounded:
  "0 \<le> completed (getWeekStats ws we hs cs) \<and>
   completed (getWeekStats ws we hs cs) \<le> planned (getWeekStats ws we hs cs) \<and>
   0 \<le> completed (getWeekStatsForHabit ws we h cs) \<and>
   completed (getWeekStatsForHabit ws we h cs) \<le> planned (getWeekStatsForHabit ws we h cs) \<and>
   0 \<le> completed (getCompletionStats hs cs days today) \<and>
   completed (getCompletionStats hs cs days today) \<le> planned (getCompletionStats hs cs days today) \<and>
   0 \<le> snd (countDays h cs s e (0, 0)) \<and>
   snd (countDays h cs s e (0, 0)) \<le> fst (countDays h cs s e (0, 0)) \<and>
   (\<forall>a \<in> set (calculateAbandonedHabits hs cs s e).
      0 \<le> missedDays a \<and> missedDays a \<le> plannedDays a \<and>
      0 \<le> failureRate a \<and> failureRate a \<le> 100) \<and>
   0 \<le> weekCompletionRate hs cs today \<and> weekCompletionRate hs cs today \<le> 100 \<and>
   0 \<le> monthCompletionRate hs cs today \<and> monthCompletionRate hs cs today \<le> 100 \<and>
   (\<exists>x. weekPoint hs cs total sel today ''total'' = Some (Num x) \<and> 0 \<le> x \<and> x \<le> 100)"
  using getWeekStats_ok[of ws we hs cs] getWeekStatsForHabit_ok[of ws we h cs]
    getCompletionStats_ok[of hs cs days today] countDays_zero_ok[of h cs s e]
    weekCompletionRate_bounds[of hs cs today] monthCompletionRate_bounds[of hs cs today]
    abandoned_entry_bounds[of _ hs cs s e] weekPoint_total_bounds[of hs cs sel today]
  unfolding countsOk_def by blast

text \<open>
  The theorem at the sample week: four habits are ranked, so the bounds on the
  entries are not vacuous, and the week holds 12 planned occurrences of which one is
  completed.
\<close>

theorem window_counts_bounded_witness:
  "length (calculateAbandonedHabits ex_habits ex_completions 1705276800000 1705881599999) = 4 \<and>
   getWeekStats 1705276800000 1705881599999 ex_habits ex_completions =
     \<lparr>completed = 1, planned = 12\<rparr> \<and>
   0 \<le> failureRate (hd (calculateAbandonedHabits ex_habits ex_completions 1705276800000 1705881599999)) \<and>
   failureRate (hd (calculateAbandonedHabits ex_habits ex_completions 1705276800000 1705881599999)) \<le> 100"
proof -
  have len: "length (calculateAbandonedHabits ex_habits ex_completions 1705276800000 1705881599999) = 4"
    by code_simp
  have st: "getWeekStats 1705276800000 1705881599999 ex_habits ex_completions =
     \<lparr>completed = 1, planned = 12\<rparr>"
    by code_simp
  from len have "hd (calculateAbandonedHabits ex_habits ex_completions 1705276800000 1705881599999)
      \<in> set (calculateAbandonedHabits ex_habits ex_completions 1705276800000 1705881599999)"
    by (intro hd_in_set) auto
  then show ?thesis
    using len st
      window_counts_bounded[of 1705276800000 1705881599999 ex_habits ex_completions
        ex_daily 7 1705881599999 1705276800000 1705881599999]
    by blast
qed

lemma getWeekStats_loop_no_habits: "getWeekStats_loop d e [] cs acc = acc"
proof (induction d e "[] :: Habit list" cs acc rule: getWeekStats_loop.induct)
  case (1 d e cs acc)
  show ?case
  proof (cases "d \<le> e")
    case True
    then show ?thesis
      using "1.hyps"[OF True refl refl] by (subst getWeekStats_loop.simps) simp
  next
    case False
    then show ?thesis by (subst getWeekStats_loop.simps) simp
  qed
qed

lemma getWeekStats_loop_inverted: "e < d \<Longrightarrow> getWeekStats_loop d e hs cs acc = acc"
  by (subst getWeekStats_loop.simps) simp

lemma getWeekStatsForHabit_loop_inverted:
  "e < d \<Longrightarrow> getWeekStatsForHabit_loop d e h cs acc = acc"
  by (subst getWeekStatsForHabit_loop.simps) simp

lemma countDays_inverted: "e < d \<Longrightarrow> countDays h cs d e (p, c) = (p, c)"
  by (subst countDays.simps) simp

lemma foldl_unchanged: "foldl (\<lambda>acc i. acc) a xs = a"
  by (induction xs) simp_all

lemma getCompletionStats_no_habits:
  "getCompletionStats [] cs days today = \<lparr>completed = 0, planned = 0\<rparr>"
  by (simp add: getCompletionStats_def Let_def foldl_unchanged)

lemma getCompletionStats_no_days:
  "days \<le> 0 \<Longrightarrow> getCompletionStats hs cs days today = \<lparr>completed = 0, planned = 0\<rparr>"
  by (simp add: getCompletionStats_def)

lemma calculateAbandonedHabits_inverted:
  "e < s \<Longrightarrow> calculateAbandonedHabits hs cs s e = []"
  by (simp add: calculateAbandonedHabits_eq countDays_inverted sort_cmp_def)

text \<open>
  Claim C5. For every completion list, the window aggregates over an empty habit list
  return planned = 0 and completed = 0; so do the aggregates over a window whose end
  lies before its start (the loops run zero times) and \<^verbatim>\<open>getCompletionStats\<close> over
  zero days, and the ranking is empty in both cases. The completion rates derived from
  planned = 0 (no habit due today, for the rate of the day) are 0.
\<close>

theorem empty_window_zero:
  "getWeekStats ws we [] cs = \<lparr>completed = 0, planned = 0\<rparr> \<and>
   getCompletionStats [] cs days today = \<lparr>completed = 0, planned = 0\<rparr> \<and>
   calculateAbandonedHabits [] cs ws we = [] \<and>
   (we < ws \<longrightarrow>
      getWeekStats ws we hs cs = \<lparr>completed = 0, planned = 0\<rparr> \<and>
      getWeekStatsForHabit ws we h cs = \<lparr>completed = 0, planned = 0\<rparr> \<and>
      countDays h cs ws we (0, 0) = (0, 0) \<and>
      calculateAbandonedHabits hs cs ws we = []) \<and>
   (days \<le> 0 \<longrightarrow> getCompletionStats hs cs days today = \<lparr>completed = 0, planned = 0\<rparr>) \<and>
   weekCompletionRate [] cs today = 0 \<and>
   monthCompletionRate [] cs today = 0 \<and>
   (planned (getCompletionStats (filter is_active hs2) cs 7 today) = 0 \<longrightarrow>
      weekCompletionRate hs2 cs today = 0) \<and>
   (planned (getCompletionStats (filter is_active hs2) cs 30 today) = 0 \<longrightarrow>
      monthCompletionRate hs2 cs today = 0) \<and>
   todayCompletionRate [] cs today = 0 \<and>
   (filter (\<lambda>h. shouldShowHabitOnDate h today) (filter is_active hs2) = [] \<longrightarrow>
      todayCompletionRate hs2 cs today = 0)"
proof (intro conjI impI)
  show "getWeekStats ws we [] cs = \<lparr>completed = 0, planned = 0\<rparr>"
    by (simp add: getWeekStats_def getWeekStats_loop_no_habits)
  show "getCompletionStats [] cs days today = \<lparr>completed = 0, planned = 0\<rparr>"
    by (rule getCompletionStats_no_habits)
  show "calculateAbandonedHabits [] cs ws we = []"
    by (simp add: calculateAbandonedHabits_def sort_cmp_def)
  show "weekCompletionRate [] cs today = 0"
    by (simp add: weekCompletionRate_def getCompletionStats_no_habits)
  show "monthCompletionRate [] cs today = 0"
    by (simp add: monthCompletionRate_def getCompletionStats_no_habits)
next
  assume "we < ws"
  then show "getWeekStats ws we hs cs = \<lparr>completed = 0, planned = 0\<rparr>"
    "getWeekStatsForHabit ws we h cs = \<lparr>completed = 0, planned = 0\<rparr>"
    "countDays h cs ws we (0, 0) = (0, 0)"
    "calculateAbandonedHabits hs cs ws we = []"
    by (simp_all add: getWeekStats_def getWeekStats_loop_inverted getWeekStatsForHabit_def
        getWeekStatsForHabit_loop_inverted countDays_inverted calculateAbandonedHabits_inverted)
next
  assume "days \<le> 0"
  then show "getCompletionStats hs cs days today = \<lparr>completed = 0, planned = 0\<rparr>"
    by (rule getCompletionStats_no_days)
next
  assume "planned (getCompletionStats (filter is_active hs2) cs 7 today) = 0"
  then show "weekCompletionRate hs2 cs today = 0"
    by (simp add: weekCompletionRate_def Let_def)
next
  assume "planned (getCompletionStats (filter is_active hs2) cs 30 today) = 0"
  then show "monthCompletionRate hs2 cs today = 0"
    by (simp add: monthCompletionRate_def Let_def)
next
  show "todayCompletionRate [] cs today = 0"
    by (simp add: todayCompletionRate_def)
next
  assume "filter (\<lambda>h. shouldShowHabitOnDate h today) (filter is_active hs2) = []"
  then show "todayCompletionRate hs2 cs today = 0"
    unfolding todayCompletionRate_def Let_def by (simp del: filter_filter)
qed

text \<open>
  The theorem at the sample week with its bounds exchanged, at zero days, and at a
  habit list holding only the habit without weekdays, which plans nothing.
\<close>

theorem empty_window_zero_witness:
  "(1705276800000 :: int) < 1705881599999 \<and> (0 :: int) \<le> 0 \<and>
   planned (getCompletionStats (filter is_active [ex_nodays]) ex_completions 7 1705329000000) = 0 \<and>
   planned (getCompletionStats (filter is_active [ex_nodays]) ex_completions 30 1705329000000) = 0 \<and>
   getWeekStats 1705881599999 1705276800000 ex_habits ex_completions =
     \<lparr>completed = 0, planned = 0\<rparr> \<and>
   calculateAbandonedHabits ex_habits ex_completions 1705881599999 1705276800000 = [] \<and>
   getCompletionStats ex_habits ex_completions 0 1705329000000 = \<lparr>completed = 0, planned = 0\<rparr> \<and>
   weekCompletionRate [ex_nodays] ex_completions 1705329000000 = 0 \<and>
   monthCompletionRate [ex_nodays] ex_completions 1705329000000 = 0 \<and>
   todayCompletionRate [ex_nodays] ex_completions 1705329000000 = 0"
proof -
  have t: "filter (\<lambda>h. shouldShowHabitOnDate h 1705329000000) (filter is_active [ex_nodays]) = []"
    by (simp add: ex_nodays_def shouldShowHabitOnDate_def)
  have p7: "planned (getCompletionStats (filter is_active [ex_nodays]) ex_completions 7 1705329000000) = 0"
    by code_simp
  have p30: "planned (getCompletionStats (filter is_active [ex_nodays]) ex_completions 30 1705329000000) = 0"
    by code_simp
  show ?thesis
    using p7 p30 t
      empty_window_zero[of 1705881599999 1705276800000 ex_completions 0 1705329000000
        ex_habits ex_daily "[ex_nodays]"]
    by simp
qed

section \<open>Schedule evaluator: degenerate rules and alternate days\<close>

lemma smod_2_eq_0_iff: "(x::int) smod 2 = 0 \<longleftrightarrow> even x"
proof -
  have "x smod 2 = sgn x * (\<bar>x\<bar> mod 2)"
    by (simp add: signed_modulo_int_def)
  moreover have "even x \<longleftrightarrow> \<bar>x\<bar> mod 2 = 0"
    by presburger
  moreover have "x = 0 \<Longrightarrow> even x"
    by simp
  ultimately show ?thesis
    by (auto simp: sgn_if split: if_splits)
qed

lemma shouldShowHabitOnDate_alternate:
  "frequency_type h = ''alternate'' \<Longrightarrow>
   shouldShowHabitOnDate h d \<longleftrightarrow>
     0 \<le> (d - created_at h) div msPerDay \<and> even ((d - created_at h) div msPerDay)"
  by (simp add: shouldShowHabitOnDate_def Let_def smod_2_eq_0_iff)

lemma shouldHaveHabitOnDate_alternate:
  "frequency_type h = ''alternate'' \<Longrightarrow>
   shouldHaveHabitOnDate d h \<longleftrightarrow> even ((d - created_at h) div msPerDay)"
  by (simp add: shouldHaveHabitOnDate_def Let_def smod_2_eq_0_iff)

lemma alternate_not_due_before_creation:
  "frequency_type h = ''alternate'' \<Longrightarrow> d < created_at h \<Longrightarrow> \<not> shouldShowHabitOnDate h d"
  by (simp add: shouldShowHabitOnDate_alternate msPerDay_def)

text \<open>
  Claim C7. A habit whose \<open>frequency_type\<close> is none of \<^verbatim>\<open>daily\<close>, \<^verbatim>\<open>alternate\<close>,
  \<^verbatim>\<open>custom\<close>, or is \<^verbatim>\<open>custom\<close> with \<open>custom_days\<close> absent (\<^verbatim>\<open>null\<close>) or empty, is
  due on no date: the evaluator returns \<open>False\<close>, a value, for every date.
\<close>

theorem degenerate_schedule_never_due:
  "frequency_type h \<notin> {''daily'', ''alternate'', ''custom''} \<or>
   (frequency_type h = ''custom'' \<and> (custom_days h = None \<or> custom_days h = Some []))
   \<Longrightarrow> shouldShowHabitOnDate h date = False \<and> shouldHaveHabitOnDate date h = False"
  by (auto simp: shouldShowHabitOnDate_def shouldHaveHabitOnDate_def Let_def)

theorem degenerate_schedule_never_due_witness:
  "frequency_type ex_weekly \<notin> {''daily'', ''alternate'', ''custom''} \<and>
   frequency_type ex_nodays = ''custom'' \<and> custom_days ex_nodays = Some [] \<and>
   shouldShowHabitOnDate ex_weekly 1705329000000 = False \<and>
   shouldShowHabitOnDate ex_nodays 1705329000000 = False"
  using degenerate_schedule_never_due[of ex_weekly 1705329000000]
    degenerate_schedule_never_due[of ex_nodays 1705329000000]
  by (simp add: ex_weekly_def ex_nodays_def)

text \<open>
  Claim C2, as stated: an \<^verbatim>\<open>alternate\<close> habit is due exactly when the number of whole
  days between the calendar date of \<open>created_at\<close> and the date is non-negative and
  even, so it is due on its creation day. The code subtracts the two time values
  without truncating either to a calendar date. The sample habit was created on
  2024-01-15 at 14:30; at the midnight that starts that day (the \<^verbatim>\<open>Date\<close> a calendar
  passes for 2024-01-15) the specification's rule holds and both evaluators return
  false.
\<close>

theorem alternate_creation_day_counterexample:
  "isDue_Alternate_spec ex_alternate 1705276800000 \<and>
   \<not> shouldShowHabitOnDate ex_alternate 1705276800000 \<and>
   \<not> shouldHaveHabitOnDate 1705276800000 ex_alternate"
  by (simp add: isDue_Alternate_spec_def shouldShowHabitOnDate_def shouldHaveHabitOnDate_def
      ex_alternate_def dayNumber_def msPerDay_def Let_def smod_2_eq_0_iff)

text \<open>
  Claim C2, amended. For an \<^verbatim>\<open>alternate\<close> habit and every instant \<open>date\<close>,
  \<^verbatim>\<open>shouldShowHabitOnDate\<close> is true if and only if the number of whole 24-hour periods
  from the instant \<open>created_at\<close> to \<open>date\<close>, \<open>(date - created_at) div msPerDay\<close>, is
  non-negative and even. \<^verbatim>\<open>shouldHaveHabitOnDate\<close> of HabitCard.tsx agrees at every
  instant from \<open>created_at\<close> on. Both are true at the instant of creation, and
  \<^verbatim>\<open>shouldShowHabitOnDate\<close> is false at every instant before it.
\<close>

theorem alternate_due_iff_elapsed_days:
  "frequency_type h = ''alternate'' \<Longrightarrow>
     (shouldShowHabitOnDate h date \<longleftrightarrow>
        0 \<le> (date - created_at h) div msPerDay \<and> even ((date - created_at h) div msPerDay)) \<and>
     (created_at h \<le> date \<longrightarrow>
        (shouldHaveHabitOnDate date h \<longleftrightarrow> even ((date - created_at h) div msPerDay))) \<and>
     shouldShowHabitOnDate h (created_at h) \<and>
     shouldHaveHabitOnDate (created_at h) h \<and>
     (date2 < created_at h \<longrightarrow> \<not> shouldShowHabitOnDate h date2)"
proof -
  assume alt: "frequency_type h = ''alternate''"
  have "date2 < created_at h \<longrightarrow> \<not> shouldShowHabitOnDate h date2"
    using alt by (simp add: alternate_not_due_before_creation)
  moreover have "shouldShowHabitOnDate h (created_at h)" "shouldHaveHabitOnDate (created_at h) h"
    using alt by (simp_all add: shouldShowHabitOnDate_alternate shouldHaveHabitOnDate_alternate)
  ultimately show ?thesis
    using alt by (simp add: shouldShowHabitOnDate_alternate shouldHaveHabitOnDate_alternate)
qed

theorem alternate_due_iff_elapsed_days_witness:
  "frequency_type ex_alternate = ''alternate'' \<and>
   created_at ex_alternate \<le> 1705505400000 \<and>
   (1705276800000 :: int) < created_at ex_alternate \<and>
   shouldShowHabitOnDate ex_alternate 1705505400000 \<and>
   shouldHaveHabitOnDate 1705505400000 ex_alternate \<and>
   \<not> shouldShowHabitOnDate ex_alternate 1705276800000"
  using alternate_due_iff_elapsed_days[of ex_alternate 1705505400000 1705276800000]
  by (simp add: ex_alternate_def msPerDay_def)

text \<open>
  HabitCard.tsx has no test \<^verbatim>\<open>daysSinceCreation >= 0\<close>: two days before the creation
  instant its evaluator answers true where the other copies answer false.
\<close>

lemma shouldHaveHabitOnDate_before_creation:
  "shouldHaveHabitOnDate (1705329000000 - 2 * msPerDay) ex_alternate \<and>
   \<not> shouldShowHabitOnDate ex_alternate (1705329000000 - 2 * msPerDay)"
  by (simp add: shouldShowHabitOnDate_alternate shouldHaveHabitOnDate_alternate
      ex_alternate_def msPerDay_def)

section \<open>Streak calculator: the backward walk\<close>

lemma streakLoop_invalid: "\<not> validDate d \<Longrightarrow> streakLoop cap h cs d s = Inl RangeError"
  by (subst streakLoop.simps) simp

lemma streakLoop_broken:
  "validDate d \<Longrightarrow> shouldShowHabitOnDate h d \<Longrightarrow>
   \<not> list_ex (\<lambda>c. completion_date c = format_yyyyMMdd d) cs \<Longrightarrow>
   streakLoop cap h cs d s = Inr s"
  by (subst streakLoop.simps) simp

lemma streakLoop_skipped:
  "validDate d \<Longrightarrow> \<not> shouldShowHabitOnDate h d \<Longrightarrow> s \<le> cap \<Longrightarrow>
   streakLoop cap h cs d s = streakLoop cap h cs (subDays d 1) s"
  by (subst streakLoop.simps) simp

lemma streakLoop_counted:
  "validDate d \<Longrightarrow> shouldShowHabitOnDate h d \<Longrightarrow>
   list_ex (\<lambda>c. completion_date c = format_yyyyMMdd d) cs \<Longrightarrow> s + 1 \<le> cap \<Longrightarrow>
   streakLoop cap h cs d s = streakLoop cap h cs (subDays d 1) (s + 1)"
  by (subst streakLoop.simps) simp

lemma streakLoop_capped:
  "validDate d \<Longrightarrow> shouldShowHabitOnDate h d \<Longrightarrow>
   list_ex (\<lambda>c. completion_date c = format_yyyyMMdd d) cs \<Longrightarrow> cap < s + 1 \<Longrightarrow>
   streakLoop cap h cs d s = Inr (s + 1)"
  by (subst streakLoop.simps) simp

text \<open>
  Before its creation instant an \<^verbatim>\<open>alternate\<close> habit is never due, so neither
  \<^verbatim>\<open>break\<close> is reached: the walk goes on until the date leaves the range of valid
  dates.
\<close>

lemma streakLoop_before_creation:
  "frequency_type h = ''alternate'' \<Longrightarrow> d < created_at h \<Longrightarrow> s \<le> cap \<Longrightarrow>
   streakLoop cap h cs d s = Inl RangeError"
proof (induction cap h cs d s rule: streakLoop.induct)
  case (1 cap h cs d s)
  show ?case
  proof (cases "validDate d")
    case False
    then show ?thesis by (rule streakLoop_invalid)
  next
    case True
    have nd: "\<not> shouldShowHabitOnDate h d"
      using "1.prems" by (simp add: alternate_not_due_before_creation)
    have lt: "subDays d 1 < created_at h"
      using "1.prems" by (simp add: subDays_def msPerDay_def)
    have "streakLoop cap h cs (subDays d 1)
            (if shouldShowHabitOnDate h d then s + 1 else s) = Inl RangeError"
      by (rule "1.IH"[OF _ refl refl refl _ refl refl])
         (use True nd lt "1.prems" in simp_all)
    then show ?thesis
      using True nd "1.prems"(3) by (simp add: streakLoop_skipped)
  qed
qed

lemma subDays_subDays: "subDays (subDays d a) b = subDays d (a + b)"
  by (simp add: subDays_def algebra_simps)

lemma streakLoop_walk_before_creation:
  "frequency_type h = ''alternate'' \<Longrightarrow> d < created_at h \<Longrightarrow> s \<le> cap \<Longrightarrow>
   validDate (subDays d (int n)) \<Longrightarrow> d \<le> maxTimeValue \<Longrightarrow>
   streakLoop cap h cs d s = streakLoop cap h cs (subDays d (int n)) s"
proof (induction n arbitrary: d)
  case 0
  then show ?case by (simp add: subDays_def)
next
  case (Suc n)
  have v: "validDate d"
    using Suc.prems(4,5) by (simp add: validDate_def subDays_def msPerDay_def)
  have nd: "\<not> shouldShowHabitOnDate h d"
    using Suc.prems by (simp add: alternate_not_due_before_creation)
  have "streakLoop cap h cs d s = streakLoop cap h cs (subDays d 1) s"
    using v nd Suc.prems(3) by (rule streakLoop_skipped)
  also have "\<dots> = streakLoop cap h cs (subDays (subDays d 1) (int n)) s"
    by (rule Suc.IH) (use Suc.prems in \<open>simp_all add: subDays_def msPerDay_def algebra_simps\<close>)
  finally show ?case
    by (simp add: subDays_subDays)
qed

text \<open>
  What the dashboard's walk does with a day on which the habit is not due: whether a
  completion is recorded for it does not matter. Two completion lists that agree on
  every due day give the same result.
\<close>

lemma streakLoop_only_due_days:
  assumes "\<And>d'. shouldShowHabitOnDate h d' \<Longrightarrow>
             list_ex (\<lambda>c. completion_date c = format_yyyyMMdd d') cs =
             list_ex (\<lambda>c. completion_date c = format_yyyyMMdd d') cs'"
  shows "streakLoop cap h cs d s = streakLoop cap h cs' d s"
  using assms
proof (induction cap h cs d s rule: streakLoop.induct)
  case (1 cap h cs d s)
  note agree = "1.prems"
  show ?case
  proof (cases "validDate d")
    case False
    then show ?thesis by (simp add: streakLoop_invalid)
  next
    case True
    show ?thesis
    proof (cases "shouldShowHabitOnDate h d")
      case nd: False
      show ?thesis
      proof (cases "s \<le> cap")
        case le: True
        have "streakLoop cap h cs (subDays d 1) (if shouldShowHabitOnDate h d then s + 1 else s) =
              streakLoop cap h cs' (subDays d 1) (if shouldShowHabitOnDate h d then s + 1 else s)"
          by (rule "1.IH"[OF _ refl refl refl _ refl refl]) (use True nd le agree in simp_all)
        then show ?thesis
          using True nd le by (simp add: streakLoop_skipped)
      next
        case False
        then show ?thesis
          using True nd
          by (subst streakLoop.simps, subst (2) streakLoop.simps) simp
      qed
    next
      case due: True
      have same: "list_ex (\<lambda>c. completion_date c = format_yyyyMMdd d) cs =
                  list_ex (\<lambda>c. completion_date c = format_yyyyMMdd d) cs'"
        using due by (rule agree)
      show ?thesis
      proof (cases "list_ex (\<lambda>c. completion_date c = format_yyyyMMdd d) cs")
        case False
        then show ?thesis
          using True due same by (simp add: streakLoop_broken)
      next
        case has: True
        show ?thesis
        proof (cases "s + 1 \<le> cap")
          case le: True
          have "streakLoop cap h cs (subDays d 1) (if shouldShowHabitOnDate h d then s + 1 else s) =
                streakLoop cap h cs' (subDays d 1) (if shouldShowHabitOnDate h d then s + 1 else s)"
            by (rule "1.IH"[OF _ refl refl refl _ refl refl]) (use True due has le agree in simp_all)
          then show ?thesis
            using True due has same le by (simp add: streakLoop_counted)
        next
          case False
          then show ?thesis
            using True due has same by (simp add: streakLoop_capped)
        qed
      qed
    qed
  qed
qed

text \<open>
  The dashboard's walk returns 0 when the most recent due day at or before the
  reference date, \<open>k\<close> days back, has no completion.
\<close>

lemma streakLoop_zero_at_first_due:
  assumes "\<forall>j<k. \<not> shouldShowHabitOnDate h (subDays today (int j))"
    and "shouldShowHabitOnDate h (subDays today (int k))"
    and "\<not> list_ex (\<lambda>c. completion_date c = format_yyyyMMdd (subDays today (int k))) cs"
    and "\<forall>j\<le>k. validDate (subDays today (int j))"
    and "0 \<le> cap"
  shows "streakLoop cap h cs today 0 = Inr 0"
  using assms
proof (induction k arbitrary: today)
  case 0
  then show ?case
    by (simp add: subDays_def streakLoop_broken)
next
  case (Suc k)
  have v: "validDate today" and nd: "\<not> shouldShowHabitOnDate h today"
    using Suc.prems(1,4) by (auto simp: subDays_def dest: spec[of _ 0])
  have shift: "subDays (subDays today 1) (int j) = subDays today (int (Suc j))" for j
    by (simp add: subDays_def algebra_simps)
  have "streakLoop cap h cs today 0 = streakLoop cap h cs (subDays today 1) 0"
    using v nd Suc.prems(5) by (rule streakLoop_skipped)
  also have "\<dots> = Inr 0"
  proof (rule Suc.IH)
    show "\<forall>j<k. \<not> shouldShowHabitOnDate h (subDays (subDays today 1) (int j))"
      using Suc.prems(1) unfolding shift by auto
    show "shouldShowHabitOnDate h (subDays (subDays today 1) (int k))"
      using Suc.prems(2) unfolding shift .
    show "\<not> list_ex (\<lambda>c. completion_date c = format_yyyyMMdd (subDays (subDays today 1) (int k))) cs"
      using Suc.prems(3) unfolding shift .
    show "\<forall>j\<le>k. validDate (subDays (subDays today 1) (int j))"
      using Suc.prems(4) unfolding shift by auto
    show "0 \<le> cap" by (rule Suc.prems(5))
  qed
  finally show ?case .
qed
lemma list_ex_habit_completions:
  "list_ex (\<lambda>c. completion_date c = ds)
     (sort_cmp byDateDescending (filter (\<lambda>c. habit_id c = k) cs)) \<longleftrightarrow>
   list_ex (\<lambda>c. habit_id c = k \<and> completion_date c = ds) cs"
  by (auto simp: list_ex_iff set_sort_cmp)

lemma calculateCurrentStreak_zero_at_first_due:
  assumes "\<forall>j<k. \<not> shouldShowHabitOnDate h (subDays today (int j))"
    and "shouldShowHabitOnDate h (subDays today (int k))"
    and "\<not> list_ex (\<lambda>c. habit_id c = id_Habit h \<and>
                  completion_date c = format_yyyyMMdd (subDays today (int k))) cs"
    and "\<forall>j\<le>k. validDate (subDays today (int j))"
  shows "calculateCurrentStreak h cs today = Inr 0"
proof -
  let ?hcs = "sort_cmp byDateDescending (filter (\<lambda>c. habit_id c = id_Habit h) cs)"
  have "streakLoop 365 h ?hcs today 0 = Inr 0"
    using assms by (intro streakLoop_zero_at_first_due) (simp_all add: list_ex_habit_completions)
  then show ?thesis
    by (simp add: calculateCurrentStreak_def Let_def)
qed

text \<open>
  Claim C1 says that the backward walk stops after at most 365 calendar days and
  returns the count reached. The code tests \<^verbatim>\<open>streak > 365\<close> (\<^verbatim>\<open>streak > 100\<close> in
  the other copies), the number of completed due days, not the number of days walked.
  Input: the sample \<^verbatim>\<open>alternate\<close> habit, created on 2024-01-15 at 14:30 and completed
  that day, looked at one hour later. The first day counts, the streak is 1; every
  earlier day lies before the creation instant and is skipped. After 1000 days the
  loop is still running with streak 1, and it ends only when \<^verbatim>\<open>format\<close> throws on
  the first date outside the range of valid dates.
\<close>

theorem streak_walk_not_capped_by_days:
  "calculateCurrentStreak ex_alternate ex_completions 1705332600000 = Inl RangeError \<and>
   calculateCurrentStreak_100 ex_alternate ex_completions 1705332600000 = Inl RangeError \<and>
   streakLoop 365 ex_alternate [\<lparr>habit_id = ''h-alt'', completion_date = ''2024-01-15''\<rparr>]
     1705332600000 0 =
   streakLoop 365 ex_alternate [\<lparr>habit_id = ''h-alt'', completion_date = ''2024-01-15''\<rparr>]
     (subDays 1705332600000 1000) 1"
proof -
  let ?cs = "[\<lparr>habit_id = ''h-alt'', completion_date = ''2024-01-15''\<rparr>]"
  let ?t = "1705332600000 :: int"
  have hc: "sort_cmp byDateDescending
              (filter (\<lambda>c. habit_id c = id_Habit ex_alternate) ex_completions) = ?cs"
    by code_simp
  have alt: "frequency_type ex_alternate = ''alternate''"
    and cr: "created_at ex_alternate = 1705329000000"
    by (simp_all add: ex_alternate_def)
  have v: "validDate ?t"
    by (simp add: validDate_def maxTimeValue_def)
  have due: "shouldShowHabitOnDate ex_alternate ?t"
    by (simp add: shouldShowHabitOnDate_alternate alt cr msPerDay_def)
  have has: "list_ex (\<lambda>c. completion_date c = format_yyyyMMdd ?t) ?cs"
    by code_simp
  have before: "subDays ?t 1 < created_at ex_alternate"
    by (simp add: cr subDays_def msPerDay_def)
  have first: "streakLoop cap ex_alternate ?cs ?t 0 = streakLoop cap ex_alternate ?cs (subDays ?t 1) 1"
    if "1 \<le> cap" for cap
    using streakLoop_counted[OF v due has, of 0 cap] that by simp
  have err: "streakLoop cap ex_alternate ?cs ?t 0 = Inl RangeError" if "1 \<le> cap" for cap
    using first[OF that] streakLoop_before_creation[OF alt before, of 1 cap ?cs] that by simp
  have "streakLoop 365 ex_alternate ?cs (subDays ?t 1) 1 =
        streakLoop 365 ex_alternate ?cs (subDays (subDays ?t 1) (int 999)) 1"
    by (rule streakLoop_walk_before_creation[OF alt before])
       (simp_all add: validDate_def maxTimeValue_def subDays_def msPerDay_def)
  then have walk: "streakLoop 365 ex_alternate ?cs ?t 0 =
                   streakLoop 365 ex_alternate ?cs (subDays ?t 1000) 1"
    using first[of 365] by (simp add: subDays_subDays)
  show ?thesis
    using err[of 365] err[of 100] walk
    by (simp add: calculateCurrentStreak_def calculateCurrentStreak_100_def hc)
qed

text \<open>
  Claim C3 says that a visited day on which the habit is not due is skipped, so that
  a completion recorded for such a day never changes the streak. \<^verbatim>\<open>calculateStreak\<close>
  of HabitCard.tsx increments the streak for any visited day with a completion and
  looks at the schedule only when there is none. Input: the habit due on Mondays,
  looked at on Wednesday 2024-01-17 at 14:30, once with a completion for Monday
  2024-01-15 only, once with a further completion for Tuesday 2024-01-16, a day on
  which the habit is not due. HabitCard's streak goes from 1 to 2; the dashboard's
  \<^verbatim>\<open>calculateCurrentStreak\<close> returns 1 for both.
\<close>

theorem habit_card_counts_completion_on_non_due_day:
  "\<not> shouldHaveHabitOnDate 1705415400000 ex_monday \<and>
   format_yyyyMMdd 1705415400000 = ''2024-01-16'' \<and>
   calculateStreak [\<lparr>habit_id = ''h-mon'', completion_date = ''2024-01-15''\<rparr>]
     ex_monday 1705501800000 = Inr 1 \<and>
   calculateStreak [\<lparr>habit_id = ''h-mon'', completion_date = ''2024-01-15''\<rparr>,
                    \<lparr>habit_id = ''h-mon'', completion_date = ''2024-01-16''\<rparr>]
     ex_monday 1705501800000 = Inr 2 \<and>
   calculateCurrentStreak ex_monday [\<lparr>habit_id = ''h-mon'', completion_date = ''2024-01-15''\<rparr>]
     1705501800000 = Inr 1 \<and>
   calculateCurrentStreak ex_monday [\<lparr>habit_id = ''h-mon'', completion_date = ''2024-01-15''\<rparr>,
                    \<lparr>habit_id = ''h-mon'', completion_date = ''2024-01-16''\<rparr>]
     1705501800000 = Inr 1"
proof (intro conjI)
  show "\<not> shouldHaveHabitOnDate 1705415400000 ex_monday"
    by code_simp
  show "format_yyyyMMdd 1705415400000 = ''2024-01-16''"
    by code_simp
  show "calculateStreak [\<lparr>habit_id = ''h-mon'', completion_date = ''2024-01-15''\<rparr>]
     ex_monday 1705501800000 = Inr 1"
    by code_simp
  show "calculateStreak [\<lparr>habit_id = ''h-mon'', completion_date = ''2024-01-15''\<rparr>,
                    \<lparr>habit_id = ''h-mon'', completion_date = ''2024-01-16''\<rparr>]
     ex_monday 1705501800000 = Inr 2"
    by code_simp
  show "calculateCurrentStreak ex_monday [\<lparr>habit_id = ''h-mon'', completion_date = ''2024-01-15''\<rparr>]
     1705501800000 = Inr 1"
    by code_simp
  show "calculateCurrentStreak ex_monday [\<lparr>habit_id = ''h-mon'', completion_date = ''2024-01-15''\<rparr>,
                    \<lparr>habit_id = ''h-mon'', completion_date = ''2024-01-16''\<rparr>]
     1705501800000 = Inr 1"
    by code_simp
qed

text \<open>
  Claim C6 says that the streak is 0 whenever the most recent due date at or before
  the reference date has no completion. Input for \<^verbatim>\<open>calculateStreak\<close> of
  HabitCard.tsx: the habit due on Mondays, looked at on Wednesday 2024-01-17 at 14:30,
  with one completion, for Tuesday 2024-01-16. Wednesday and Tuesday are not due days,
  Monday 2024-01-15 is the most recent due day and has no completion. HabitCard
  returns 1, counting Tuesday; the dashboard's \<^verbatim>\<open>calculateCurrentStreak\<close> returns 0.
  With no completion at all both return 0.
\<close>

theorem habit_card_streak_nonzero_without_last_due_completion:
  "\<not> shouldHaveHabitOnDate 1705501800000 ex_monday \<and>
   \<not> shouldHaveHabitOnDate (1705501800000 - msPerDay) ex_monday \<and>
   shouldHaveHabitOnDate (1705501800000 - 2 * msPerDay) ex_monday \<and>
   format_yyyyMMdd (1705501800000 - 2 * msPerDay) = ''2024-01-15'' \<and>
   calculateStreak [\<lparr>habit_id = ''h-mon'', completion_date = ''2024-01-16''\<rparr>]
     ex_monday 1705501800000 = Inr 1 \<and>
   calculateCurrentStreak ex_monday [\<lparr>habit_id = ''h-mon'', completion_date = ''2024-01-16''\<rparr>]
     1705501800000 = Inr 0 \<and>
   calculateStreak [] ex_monday 1705501800000 = Inr 0 \<and>
   calculateCurrentStreak ex_monday [] 1705501800000 = Inr 0"
proof (intro conjI)
  show "\<not> shouldHaveHabitOnDate 1705501800000 ex_monday"
    by code_simp
  show "\<not> shouldHaveHabitOnDate (1705501800000 - msPerDay) ex_monday"
    by code_simp
  show "shouldHaveHabitOnDate (1705501800000 - 2 * msPerDay) ex_monday"
    by code_simp
  show "format_yyyyMMdd (1705501800000 - 2 * msPerDay) = ''2024-01-15''"
    by code_simp
  show "calculateStreak [\<lparr>habit_id = ''h-mon'', completion_date = ''2024-01-16''\<rparr>]
     ex_monday 1705501800000 = Inr 1"
    by code_simp
  show "calculateCurrentStreak ex_monday [\<lparr>habit_id = ''h-mon'', completion_date = ''2024-01-16''\<rparr>]
     1705501800000 = Inr 0"
    by code_simp
  show "calculateStreak [] ex_monday 1705501800000 = Inr 0"
    by (simp add: calculateStreak_def)
  show "calculateCurrentStreak ex_monday [] 1705501800000 = Inr 0"
    by (simp add: calculateCurrentStreak_def sort_cmp_def)
qed

section \<open>Period bucketizer: per-habit day points\<close>

lemma setHabitPoint_apply:
  "setHabitPoint cs sel date ds dp h k =
     (if id_Habit h = k \<and> k \<in> sel \<and> shouldShowHabitOnDate h date
      then Some (Num (if list_ex (\<lambda>c. habit_id c = k \<and> completion_date c = ds) cs
                      then 100 else 0))
      else dp k)"
  by (auto simp: setHabitPoint_def Let_def)

lemma foldl_setHabitPoint:
  "foldl (setHabitPoint cs sel date ds) dp hs k =
     (if \<exists>h\<in>set hs. id_Habit h = k \<and> k \<in> sel \<and> shouldShowHabitOnDate h date
      then Some (Num (if list_ex (\<lambda>c. habit_id c = k \<and> completion_date c = ds) cs
                      then 100 else 0))
      else dp k)"
proof (induction hs arbitrary: dp)
  case Nil
  then show ?case by simp
next
  case (Cons h hs)
  have "foldl (setHabitPoint cs sel date ds) dp (h # hs) k =
        foldl (setHabitPoint cs sel date ds) (setHabitPoint cs sel date ds dp h) hs k"
    by simp
  also have "\<dots> =
     (if \<exists>h\<in>set hs. id_Habit h = k \<and> k \<in> sel \<and> shouldShowHabitOnDate h date
      then Some (Num (if list_ex (\<lambda>c. habit_id c = k \<and> completion_date c = ds) cs
                      then 100 else 0))
      else setHabitPoint cs sel date ds dp h k)"
    by (rule Cons.IH)
  finally have "foldl (setHabitPoint cs sel date ds) dp (h # hs) k =
     (if \<exists>h\<in>set hs. id_Habit h = k \<and> k \<in> sel \<and> shouldShowHabitOnDate h date
      then Some (Num (if list_ex (\<lambda>c. habit_id c = k \<and> completion_date c = ds) cs
                      then 100 else 0))
      else setHabitPoint cs sel date ds dp h k)" .
  then show ?case
    unfolding setHabitPoint_apply[of cs sel date ds dp h k] by auto
qed

lemma dayPoint_per_habit:
  "k \<noteq> ''date'' \<Longrightarrow> k \<noteq> ''dateLabel'' \<Longrightarrow>
   dayPoint hs cs per_habit sel date k =
     (if \<exists>h\<in>set hs. id_Habit h = k \<and> k \<in> sel \<and> shouldShowHabitOnDate h date
      then Some (Num (if list_ex (\<lambda>c. habit_id c = k \<and> completion_date c = format_yyyyMMdd date) cs
                      then 100 else 0))
      else None)"
  by (auto simp: dayPoint_def Let_def foldl_setHabitPoint)

lemma nth_map_upto: "0 \<le> i \<Longrightarrow> i \<le> n \<Longrightarrow> map f [0..n] ! nat i = f i"
  by (simp add: nth_upto)

lemma length_chartData_day:
  "length (chartData hs cs vm day sel dateRange endDate) = nat (dateRange + 1)"
  by (simp add: chartData_def Let_def)

text \<open>
  Claim C8. In the day view in per-habit mode the chart has one point per date
  \<^verbatim>\<open>subDays(endDate, dateRange - i)\<close>, \<open>0 \<le> i \<le> dateRange\<close>. For a property name \<open>k\<close>
  other than the two fixed keys \<^verbatim>\<open>date\<close> and \<^verbatim>\<open>dateLabel\<close>, the point has an entry
  \<open>k\<close> exactly when an active, selected habit with id \<open>k\<close> is due on that date; the
  entry is 100 if a completion of habit \<open>k\<close> exists for that date and 0 otherwise. When
  no such habit is due on the date the point has no entry \<open>k\<close>.
\<close>

theorem per_habit_day_point_only_when_due:
  "0 \<le> i \<Longrightarrow> i \<le> dateRange \<Longrightarrow> k \<noteq> ''date'' \<Longrightarrow> k \<noteq> ''dateLabel'' \<Longrightarrow>
   length (chartData hs cs per_habit day sel dateRange endDate) = nat (dateRange + 1) \<and>
   (chartData hs cs per_habit day sel dateRange endDate ! nat i) k =
     (if \<exists>h\<in>set hs. is_active h \<and> id_Habit h = k \<and> k \<in> sel \<and>
                      shouldShowHabitOnDate h (subDays endDate (dateRange - i))
      then Some (Num (if list_ex (\<lambda>c. habit_id c = k \<and>
                           completion_date c = format_yyyyMMdd (subDays endDate (dateRange - i))) cs
                      then 100 else 0))
      else None)"
proof -
  assume i: "0 \<le> i" "i \<le> dateRange" and k: "k \<noteq> ''date''" "k \<noteq> ''dateLabel''"
  let ?date = "subDays endDate (dateRange - i)"
  have nth: "chartData hs cs per_habit day sel dateRange endDate ! nat i =
        dayPoint (filter is_active hs) cs per_habit sel ?date"
    using i by (simp add: chartData_def Let_def nth_map_upto)
  have ex: "(\<exists>h\<in>set (filter is_active hs). id_Habit h = k \<and> k \<in> sel \<and>
                      shouldShowHabitOnDate h ?date) \<longleftrightarrow>
            (\<exists>h\<in>set hs. is_active h \<and> id_Habit h = k \<and> k \<in> sel \<and>
                      shouldShowHabitOnDate h ?date)"
    by auto
  have "dayPoint (filter is_active hs) cs per_habit sel ?date k =
     (if \<exists>h\<in>set hs. is_active h \<and> id_Habit h = k \<and> k \<in> sel \<and> shouldShowHabitOnDate h ?date
      then Some (Num (if list_ex (\<lambda>c. habit_id c = k \<and> completion_date c = format_yyyyMMdd ?date) cs
                      then 100 else 0))
      else None)"
    unfolding dayPoint_per_habit[OF k] ex ..
  then show ?thesis
    unfolding nth by (simp only: length_chartData_day simp_thms)
qed

text \<open>
  The theorem on the sample data for the two days up to 2024-01-16, with the
  \<^verbatim>\<open>alternate\<close> habit and the Monday habit selected: on 2024-01-15 at 14:30 (index 0)
  the \<^verbatim>\<open>alternate\<close> habit is due and completed and the Monday habit is due and not
  completed; on 2024-01-16 (index 1) neither is due and neither has an entry.
\<close>

theorem per_habit_day_point_only_when_due_witness:
  "(0 :: int) \<le> 0 \<and> (0 :: int) \<le> 1 \<and> ''h-alt'' \<noteq> ''date'' \<and> ''h-alt'' \<noteq> ''dateLabel'' \<and>
   (chartData ex_habits ex_completions per_habit day {''h-alt'', ''h-mon''} 1 1705415400000 ! nat 0)
     ''h-alt'' = Some (Num 100) \<and>
   (chartData ex_habits ex_completions per_habit day {''h-alt'', ''h-mon''} 1 1705415400000 ! nat 0)
     ''h-mon'' = Some (Num 0) \<and>
   (chartData ex_habits ex_completions per_habit day {''h-alt'', ''h-mon''} 1 1705415400000 ! nat 1)
     ''h-alt'' = None \<and>
   (chartData ex_habits ex_completions per_habit day {''h-alt'', ''h-mon''} 1 1705415400000 ! nat 1)
     ''h-mon'' = None"
proof -
  have pts: "map (\<lambda>p. (p ''h-alt'', p ''h-mon''))
          (chartData ex_habits ex_completions per_habit day {''h-alt'', ''h-mon''} 1 1705415400000) =
        [(Some (Num 100), Some (Num 0)), (None, None)]"
    by code_simp
  have len: "length (chartData ex_habits ex_completions per_habit day {''h-alt'', ''h-mon''} 1 1705415400000) = 2"
    by (simp add: length_chartData_day)
  have "(chartData ex_habits ex_completions per_habit day {''h-alt'', ''h-mon''} 1 1705415400000 ! n) ''h-alt'' =
          fst ([(Some (Num 100), Some (Num 0)), (None, None)] ! n) \<and>
        (chartData ex_habits ex_completions per_habit day {''h-alt'', ''h-mon''} 1 1705415400000 ! n) ''h-mon'' =
          snd ([(Some (Num 100), Some (Num 0)), (None, None)] ! n)"
    if "n < 2" for n
    using that len unfolding pts[symmetric] by simp
  from this[of 0] this[of 1] show ?thesis
    using per_habit_day_point_only_when_due[of 0 1 "''h-alt''" ex_habits ex_completions
        "{''h-alt'', ''h-mon''}" 1705415400000]
    by simp
qed

section \<open>Determinism\<close>




lemma calculateCurrentStreak_heap_nextRef:
  "nextRef (snd (calculateCurrentStreak_heap h r today \<sigma>)) = nextRef \<sigma> + 1"
  by (simp add: calculateCurrentStreak_heap_def array_filter_def array_sort_def)


subsection \<open>What the components read of a date\<close>


























subsection \<open>Windows, chart and ranking\<close>



















subsection \<open>The other copies of the evaluator and of the streak calculator\<close>











subsection \<open>Agreement of the components on the same clock\<close>




end
